theory Spec2Isabelle
  imports Complex_Main "HOL-Library.AList"
begin

section \<open>Python values\<close>

text \<open>
  The source passes transactions, cases and results around as \<open>Dict[str, Any]\<close>.
  A dictionary is an association list read with \<open>map_of\<close> (insertion order kept, as in
  Python) and a value is one of the JSON-like shapes the code tests with \<open>isinstance\<close>.
  A float or a Decimal is its exact rational value, or one of the three special values;
  comparisons of floats are exact, so only conversions (parsing, rounding, printing)
  depend on the platform, and those are fields of the \<open>runtime\<close> record below.
\<close>

datatype pynum = Fin rat | PosInf | NegInf | NaN

datatype pyval =
    PNone
  | PBool bool
  | PInt int
  | PFloat pynum
  | PDecimal pynum
  | PStr string
  | PList "pyval list"
  | PDict "(string \<times> pyval) list"

type_synonym pydict = "(string \<times> pyval) list"

text \<open>\<open>a <= b\<close> on floats: false as soon as one side is NaN.\<close>

fun le_num :: "pynum \<Rightarrow> pynum \<Rightarrow> bool" where
  "le_num NaN y = False"
| "le_num x NaN = False"
| "le_num NegInf y = True"
| "le_num x PosInf = True"
| "le_num (Fin a) (Fin b) = (a \<le> b)"
| "le_num x y = False"

text \<open>\<open>d.get(k, default)\<close> and \<open>d.get(k)\<close>.\<close>

definition get_default :: "pydict \<Rightarrow> string \<Rightarrow> pyval \<Rightarrow> pyval" where
  "get_default d k dflt = (case map_of d k of Some v \<Rightarrow> v | None \<Rightarrow> dflt)"

definition get :: "pydict \<Rightarrow> string \<Rightarrow> pyval" where
  "get d k = get_default d k PNone"

text \<open>Truth value of an object in \<open>if x:\<close> and \<open>if not x:\<close>.\<close>

fun truthy :: "pyval \<Rightarrow> bool" where
  "truthy PNone = False"
| "truthy (PBool b) = b"
| "truthy (PInt i) = (i \<noteq> 0)"
| "truthy (PFloat x) = (x \<noteq> Fin 0)"
| "truthy (PDecimal x) = (x \<noteq> Fin 0)"
| "truthy (PStr s) = (s \<noteq> [])"
| "truthy (PList xs) = (xs \<noteq> [])"
| "truthy (PDict kvs) = (kvs \<noteq> [])"

text \<open>\<open>str(i)\<close> for an int, as an f-string prints it.\<close>

fun digits_nat :: "nat \<Rightarrow> string" where
  "digits_nat n =
     (if n < 10 then [''0123456789'' ! n]
      else digits_nat (n div 10) @ [''0123456789'' ! (n mod 10)])"

declare digits_nat.simps [simp del]

definition str_int :: "int \<Rightarrow> string" where
  "str_int i = (if i < 0 then CHR ''-'' # digits_nat (nat (- i)) else digits_nat (nat i))"

text \<open>\<open>s.replace(c, t)\<close> for a one-character pattern, and \<open>s.strip()\<close>.\<close>

definition replace_char :: "char \<Rightarrow> string \<Rightarrow> string \<Rightarrow> string" where
  "replace_char c t s = concat (map (\<lambda>x. if x = c then t else [x]) s)"

definition is_space :: "char \<Rightarrow> bool" where
  "is_space c =
     (let n = of_char c :: nat
      in (9 \<le> n \<and> n \<le> 13) \<or> (28 \<le> n \<and> n \<le> 32) \<or> n = 133 \<or> n = 160)"

definition strip :: "string \<Rightarrow> string" where
  "strip s = rev (dropWhile is_space (rev (dropWhile is_space s)))"

text \<open>
  The exceptions the modelled code can meet: botocore's \<open>ClientError\<close> with its error
  code, the three that subscripting raises (with the offending key or object), and any
  other exception.
\<close>

datatype exn =
    ClientError string
  | KeyError pyval
  | TypeError pyval
  | IndexError
  | OtherException

text \<open>
  What the Python runtime and the clock decide. \<open>None\<close> is a raised exception.
  \<^item> \<open>float_of_str\<close>: \<open>float(s)\<close> (ValueError);
  \<^item> \<open>float_of_int\<close>: \<open>float(i)\<close> (OverflowError);
  \<^item> \<open>float_of_decimal\<close>: \<open>float(d)\<close> for a Decimal;
  \<^item> \<open>repr_float\<close>: how an f-string prints a float;
  \<^item> \<open>decimal_of_float\<close>: \<open>Decimal(str(x))\<close>;
  \<^item> \<open>days_since\<close>: \<open>(utcnow().replace(tzinfo=d.tzinfo) - d).days\<close> for
    \<open>d = datetime.fromisoformat(s)\<close>;
  \<^item> \<open>str_exn\<close>: \<open>str(e)\<close> for an exception;
  \<^item> \<open>str_of\<close>: how an f-string prints an object that is not a string.
\<close>

record runtime =
  float_of_str :: "string \<Rightarrow> pynum option"
  float_of_int :: "int \<Rightarrow> pynum option"
  float_of_decimal :: "pynum \<Rightarrow> pynum option"
  repr_float :: "pynum \<Rightarrow> string"
  decimal_of_float :: "pynum \<Rightarrow> pynum"
  days_since :: "string \<Rightarrow> int option"
  str_exn :: "exn \<Rightarrow> string"
  str_of :: "pyval \<Rightarrow> string"

section \<open>The decision engine (dispute\_decision\_agent.py)\<close>

definition TIME_BARRED_DAYS :: int where
  "TIME_BARRED_DAYS = 600"

definition AUTO_RESOLVE_AMOUNT_USD :: pynum where
  "AUTO_RESOLVE_AMOUNT_USD = Fin 100"

definition STATUS_REJECTED_TIME_BARRED :: string where
  "STATUS_REJECTED_TIME_BARRED = ''REJECTED_TIME_BARRED''"

definition STATUS_RESOLVED_CUSTOMER :: string where
  "STATUS_RESOLVED_CUSTOMER = ''RESOLVED_CUSTOMER''"

definition STATUS_FORWARDED_TO_ACQUIRER :: string where
  "STATUS_FORWARDED_TO_ACQUIRER = ''FORWARDED_TO_ACQUIRER''"

definition CREDIT_TYPE_PERMANENT :: string where
  "CREDIT_TYPE_PERMANENT = ''PERMANENT''"

definition CREDIT_TYPE_TEMPORARY :: string where
  "CREDIT_TYPE_TEMPORARY = ''TEMPORARY''"

text \<open>
  \<open>_calculate_transaction_age_days\<close>: any exception in the body (a value with no
  \<open>replace\<close> method, an unparseable date) is caught and the age is 0.
\<close>

definition calculate_transaction_age_days :: "runtime \<Rightarrow> pyval \<Rightarrow> int" where
  "calculate_transaction_age_days rt transaction_date =
     (case transaction_date of
        PStr s \<Rightarrow>
          (case days_since rt (replace_char CHR ''Z'' ''+00:00'' s) of
             Some age_days \<Rightarrow> age_days
           | None \<Rightarrow> 0)
      | _ \<Rightarrow> 0)"

definition amount_fields :: "string list" where
  "amount_fields = [''amount_usd'', ''amount'', ''transaction_amount'', ''value'']"

text \<open>
  The body of the \<open>try\<close> in \<open>_extract_amount_usd\<close>: the loop over the field names.
  A field that is present returns when its value is a string or a number (bool is a
  subclass of int); a present field of another type falls through to the next name.
  \<open>None\<close> is an exception raised by \<open>float\<close>.
\<close>

fun scan_amount_fields :: "runtime \<Rightarrow> pydict \<Rightarrow> string list \<Rightarrow> pynum option" where
  "scan_amount_fields rt transaction_data [] = Some (Fin 999999)"
| "scan_amount_fields rt transaction_data (field # more_fields) =
     (case map_of transaction_data field of
        None \<Rightarrow> scan_amount_fields rt transaction_data more_fields
      | Some (PStr amount) \<Rightarrow>
          float_of_str rt
            (strip (replace_char CHR '','' [] (replace_char CHR ''$'' [] amount)))
      | Some (PBool b) \<Rightarrow> Some (Fin (if b then 1 else 0))
      | Some (PInt i) \<Rightarrow> float_of_int rt i
      | Some (PFloat x) \<Rightarrow> Some x
      | Some (PDecimal x) \<Rightarrow> float_of_decimal rt x
      | Some _ \<Rightarrow> scan_amount_fields rt transaction_data more_fields)"

definition extract_amount_usd :: "runtime \<Rightarrow> pydict \<Rightarrow> pynum" where
  "extract_amount_usd rt transaction_data =
     (case scan_amount_fields rt transaction_data amount_fields of
        Some amount \<Rightarrow> amount
      | None \<Rightarrow> Fin 999999)"

text \<open>The three reason texts of \<open>_determine_case_status\<close>.\<close>

definition reason_time_barred :: "int \<Rightarrow> string" where
  "reason_time_barred age_days =
     ''Transaction is '' @ str_int age_days @ '' days old, exceeding the '' @
     str_int TIME_BARRED_DAYS @ '' day limit''"

definition reason_resolved :: "runtime \<Rightarrow> pynum \<Rightarrow> string" where
  "reason_resolved rt amount_usd =
     ''Small amount dispute ($'' @ repr_float rt amount_usd @
     '') resolved in customer's favor with permanent credit''"

definition reason_forwarded :: "runtime \<Rightarrow> pynum \<Rightarrow> string" where
  "reason_forwarded rt amount_usd =
     ''Amount $'' @ repr_float rt amount_usd @
     '' forwarded to acquirer for investigation with temporary credit issued''"

text \<open>
  \<open>_determine_case_status\<close>: the tuple (status, reason, credit\_type, credit\_amount).
\<close>

definition transaction_date_of :: "pydict \<Rightarrow> pyval" where
  "transaction_date_of transaction_data =
     get_default transaction_data ''transaction_date''
       (get_default transaction_data ''date'' (PStr []))"

definition determine_case_status ::
  "runtime \<Rightarrow> pydict \<Rightarrow> string \<times> string \<times> string option \<times> pynum option" where
  "determine_case_status rt transaction_data =
     (let transaction_date = transaction_date_of transaction_data;
          amount_usd = extract_amount_usd rt transaction_data;
          age_days = calculate_transaction_age_days rt transaction_date
      in if age_days > TIME_BARRED_DAYS then
           (STATUS_REJECTED_TIME_BARRED, reason_time_barred age_days, None, None)
         else if age_days \<le> TIME_BARRED_DAYS \<and> le_num amount_usd AUTO_RESOLVE_AMOUNT_USD then
           (STATUS_RESOLVED_CUSTOMER, reason_resolved rt amount_usd,
            Some CREDIT_TYPE_PERMANENT, Some amount_usd)
         else
           (STATUS_FORWARDED_TO_ACQUIRER, reason_forwarded rt amount_usd,
            Some CREDIT_TYPE_TEMPORARY, Some amount_usd))"

section \<open>The case table (dynamo\_client.py)\<close>

text \<open>
  The DynamoDB service is not part of the repository. The case table is the list of its
  items in the order they were written, latest first; \<open>put_item\<close> replaces the item
  with the same primary key \<open>case_id\<close>. That order is the model's record of which case
  is the most recent one; the service does not answer by it. The \<open>TransactionIndex\<close>
  that initialize\_db.py declares has a hash key only, so \<open>ScanIndexForward=False\<close>
  decides nothing: the query answers the items of the transaction sorted by a rank that
  the service chooses and that is an input of the model. A call to the service either
  returns or raises; which of the two is an input as well (\<open>None\<close>: the call returns).
\<close>

type_synonym case_table = "pydict list"

definition cases_of_transaction :: "case_table \<Rightarrow> pyval \<Rightarrow> pydict list" where
  "cases_of_transaction tbl transaction_id =
     filter (\<lambda>item. map_of item ''transaction_id'' = Some transaction_id) tbl"

definition query_transaction_index ::
  "(pydict \<Rightarrow> nat) \<Rightarrow> case_table \<Rightarrow> pyval \<Rightarrow> pydict list" where
  "query_transaction_index rank tbl transaction_id =
     sort_key rank (cases_of_transaction tbl transaction_id)"

definition put_item :: "case_table \<Rightarrow> pydict \<Rightarrow> case_table" where
  "put_item tbl item =
     item # filter (\<lambda>old. map_of old ''case_id'' \<noteq> map_of item ''case_id'') tbl"

text \<open>\<open>convert_floats_to_decimal\<close>: lists and dicts are rebuilt, floats become Decimals.\<close>

primrec convert_floats_to_decimal :: "runtime \<Rightarrow> pyval \<Rightarrow> pyval" where
  "convert_floats_to_decimal rt PNone = PNone"
| "convert_floats_to_decimal rt (PBool b) = PBool b"
| "convert_floats_to_decimal rt (PInt i) = PInt i"
| "convert_floats_to_decimal rt (PFloat x) = PDecimal (decimal_of_float rt x)"
| "convert_floats_to_decimal rt (PDecimal x) = PDecimal x"
| "convert_floats_to_decimal rt (PStr s) = PStr s"
| "convert_floats_to_decimal rt (PList xs) = PList (map (convert_floats_to_decimal rt) xs)"
| "convert_floats_to_decimal rt (PDict kvs) =
     PDict (map (map_prod id (convert_floats_to_decimal rt)) kvs)"

text \<open>
  \<open>create_case\<close>: converts, writes, and turns every exception of the write into
  \<open>False\<close>. A write that raises leaves the table as it was.
\<close>

definition create_case :: "runtime \<Rightarrow> exn option \<Rightarrow> case_table \<Rightarrow> pydict \<Rightarrow> bool \<times> case_table" where
  "create_case rt wr tbl case_data =
     (case convert_floats_to_decimal rt (PDict case_data) of
        PDict converted_data \<Rightarrow>
          (case wr of
             None \<Rightarrow> (True, put_item tbl converted_data)
           | Some (ClientError code) \<Rightarrow> (False, tbl)
           | Some e \<Rightarrow> (False, tbl))
      | _ \<Rightarrow> (False, tbl))"

text \<open>
  \<open>get_case_by_transaction\<close>: the first item that the query on the transaction index
  answers; both exception handlers return \<open>None\<close>.
\<close>

definition get_case_by_transaction ::
  "exn option \<Rightarrow> (pydict \<Rightarrow> nat) \<Rightarrow> case_table \<Rightarrow> pyval \<Rightarrow> pydict option" where
  "get_case_by_transaction rd rank tbl transaction_id =
     (case rd of
        None \<Rightarrow>
          (case query_transaction_index rank tbl transaction_id of
             [] \<Rightarrow> None
           | item # more_items \<Rightarrow> Some item)
      | Some (ClientError code) \<Rightarrow> None
      | Some e \<Rightarrow> None)"

definition closed_statuses :: "pyval list" where
  "closed_statuses =
     [PStr ''RESOLVED_CUSTOMER'', PStr ''RESOLVED_ACQUIRER'', PStr ''CLOSED'',
      PStr ''REJECTED_TIME_BARRED'']"

definition get_open_case_for_transaction ::
  "exn option \<Rightarrow> (pydict \<Rightarrow> nat) \<Rightarrow> case_table \<Rightarrow> pyval \<Rightarrow> pydict option" where
  "get_open_case_for_transaction rd rank tbl transaction_id =
     (case get_case_by_transaction rd rank tbl transaction_id of
        None \<Rightarrow> None
      | Some c \<Rightarrow>
          if c = [] then None
          else
            (let status = get_default c ''dispute_status'' (PStr [])
             in if status \<notin> set closed_statuses then Some c else None))"

section \<open>The dispute workflow (dispute\_decision\_agent.py)\<close>

text \<open>
  What one call of \<open>process_dispute\<close> receives from outside: whether the read and the
  write of the case table raise, the rank by which the service sorts the answer of the
  index query, the fresh \<open>uuid4\<close>, and the two clock readings of
  \<open>DisputeCaseCreationTool._run\<close>.
\<close>

record effects =
  read_error :: "exn option"
  index_rank :: "pydict \<Rightarrow> nat"
  write_error :: "exn option"
  uuid4 :: string
  utcnow_created :: string
  utcnow_updated :: string

text \<open>\<open>obj[k]\<close> for a string key.\<close>

definition subscript :: "pyval \<Rightarrow> string \<Rightarrow> exn + pyval" where
  "subscript obj k =
     (case obj of
        PDict d \<Rightarrow> (case map_of d k of Some v \<Rightarrow> Inr v | None \<Rightarrow> Inl (KeyError (PStr k)))
      | _ \<Rightarrow> Inl (TypeError obj))"

definition try_bind :: "exn + 'a \<Rightarrow> ('a \<Rightarrow> exn + 'b) \<Rightarrow> exn + 'b" where
  "try_bind m f = (case m of Inl e \<Rightarrow> Inl e | Inr v \<Rightarrow> f v)"

text \<open>
  \<open>DisputeCaseCreationTool._run\<close>: stamps the case and persists it. The dict it was
  given is updated in place, so the caller sees the stamped dict as well.
\<close>

definition case_creation_run ::
  "runtime \<Rightarrow> effects \<Rightarrow> case_table \<Rightarrow> pydict \<Rightarrow> pydict \<times> pydict \<times> case_table" where
  "case_creation_run rt fx tbl case_data0 =
     (let case_id = uuid4 fx;
          case_data1 = AList.update ''case_id'' (PStr case_id) case_data0;
          case_data2 = AList.update ''created_at'' (PStr (utcnow_created fx)) case_data1;
          case_data = AList.update ''updated_at'' (PStr (utcnow_updated fx)) case_data2;
          (success, tbl') = create_case rt (write_error fx) tbl case_data
      in if success then
           ([(''success'', PBool True),
             (''case_id'', PStr case_id),
             (''case_data'', PDict case_data),
             (''message'', PStr (''Case '' @ case_id @ '' created successfully''))],
            case_data, tbl')
         else
           ([(''success'', PBool False),
             (''message'', PStr ''Failed to create case in database'')],
            case_data, tbl'))"

definition opt_str :: "string option \<Rightarrow> pyval" where
  "opt_str x = (case x of None \<Rightarrow> PNone | Some s \<Rightarrow> PStr s)"

definition opt_float :: "pynum option \<Rightarrow> pyval" where
  "opt_float x = (case x of None \<Rightarrow> PNone | Some a \<Rightarrow> PFloat a)"

text \<open>\<open>{x}\<close> in an f-string.\<close>

definition format_val :: "runtime \<Rightarrow> pyval \<Rightarrow> string" where
  "format_val rt v = (case v of PStr m \<Rightarrow> m | _ \<Rightarrow> str_of rt v)"

text \<open>The result of \<open>process_dispute\<close> when an open case was found.\<close>

definition existing_case_result :: "pydict \<Rightarrow> pydict" where
  "existing_case_result existing_case =
     [(''case_id'', get existing_case ''case_id''),
      (''customer_id'', get existing_case ''customer_id''),
      (''card_id'', get existing_case ''card_id''),
      (''transaction_id'', get existing_case ''transaction_id''),
      (''dispute_status'', get existing_case ''dispute_status''),
      (''decision_reason'', get existing_case ''decision_reason''),
      (''created_at'', get existing_case ''created_at''),
      (''updated_at'', get existing_case ''updated_at''),
      (''auto_decided'', get_default existing_case ''auto_decided'' (PBool False)),
      (''requires_manual_review'',
         get_default existing_case ''requires_manual_review'' (PBool False)),
      (''existing_case'', PBool True),
      (''message'', PStr ''An open dispute case already exists for this transaction'')]"

text \<open>The case that \<open>process_dispute\<close> prepares from the decision.\<close>

definition prepare_case_data :: "runtime \<Rightarrow> pydict \<Rightarrow> pydict" where
  "prepare_case_data rt transaction_data =
     (case determine_case_status rt transaction_data of
        (status, reason, credit_type, credit_amount) \<Rightarrow>
          [(''customer_id'', get transaction_data ''customer_id''),
           (''card_id'', get transaction_data ''card_id''),
           (''transaction_id'', get transaction_data ''transaction_id''),
           (''transaction_date'',
              get_default transaction_data ''transaction_date'' (get transaction_data ''date'')),
           (''transaction_amount'', PFloat (extract_amount_usd rt transaction_data)),
           (''merchant'', get_default transaction_data ''merchant'' (PStr ''Unknown'')),
           (''dispute_status'', PStr status),
           (''decision_reason'', PStr reason),
           (''auto_decided'', PBool True),
           (''requires_manual_review'', PBool (status = STATUS_FORWARDED_TO_ACQUIRER)),
           (''credit_type'', opt_str credit_type),
           (''credit_amount'', opt_float credit_amount),
           (''credit_issued'', PBool (credit_type \<noteq> None))])"

text \<open>
  The part of \<open>process_dispute\<close> after the open-case check found nothing: decide,
  create the case, build the result. \<open>Inl\<close> is an exception on its way to the handler
  of \<open>process_dispute\<close>.
\<close>

definition decide_and_create ::
  "runtime \<Rightarrow> effects \<Rightarrow> case_table \<Rightarrow> pydict \<Rightarrow> (exn + pydict) \<times> case_table" where
  "decide_and_create rt fx tbl transaction_data =
     (case determine_case_status rt transaction_data of
        (status, reason, credit_type, credit_amount) \<Rightarrow>
          (case case_creation_run rt fx tbl (prepare_case_data rt transaction_data) of
             (result, case_data, tbl') \<Rightarrow>
               (try_bind (subscript (PDict result) ''success'') (\<lambda>success.
                  if truthy success then
                    try_bind (subscript (PDict result) ''case_id'') (\<lambda>case_id.
                    try_bind (subscript (PDict case_data) ''customer_id'') (\<lambda>customer_id.
                    try_bind (subscript (PDict case_data) ''card_id'') (\<lambda>card_id.
                    try_bind (subscript (PDict case_data) ''transaction_id'') (\<lambda>transaction_id.
                    try_bind (subscript (PDict result) ''case_data'') (\<lambda>stored.
                    try_bind (subscript stored ''created_at'') (\<lambda>created_at.
                    try_bind (subscript stored ''updated_at'') (\<lambda>updated_at.
                      Inr [(''case_id'', case_id),
                           (''customer_id'', customer_id),
                           (''card_id'', card_id),
                           (''transaction_id'', transaction_id),
                           (''dispute_status'', PStr status),
                           (''decision_reason'', PStr reason),
                           (''created_at'', created_at),
                           (''updated_at'', updated_at),
                           (''auto_decided'', PBool True),
                           (''requires_manual_review'',
                              PBool (status = STATUS_FORWARDED_TO_ACQUIRER)),
                           (''credit_type'', opt_str credit_type),
                           (''credit_amount'', opt_float credit_amount),
                           (''credit_issued'', PBool (credit_type \<noteq> None)),
                           (''existing_case'', PBool False)])))))))
                  else
                    try_bind (subscript (PDict result) ''message'') (\<lambda>message.
                      Inr [(''case_id'', PNone),
                           (''dispute_status'', PStr ''ERROR''),
                           (''decision_reason'',
                              PStr (''Failed to create dispute case: '' @
                                    format_val rt message))])),
                tbl')))"

text \<open>The body of the \<open>try\<close> of \<open>process_dispute\<close>.\<close>

definition process_dispute_try ::
  "runtime \<Rightarrow> effects \<Rightarrow> case_table \<Rightarrow> pydict \<Rightarrow> (exn + pydict) \<times> case_table" where
  "process_dispute_try rt fx tbl transaction_data =
     (let transaction_id = get_default transaction_data ''transaction_id'' (PStr ''unknown'')
      in case get_open_case_for_transaction (read_error fx) (index_rank fx) tbl transaction_id of
           Some existing_case \<Rightarrow>
             if existing_case \<noteq> [] then (Inr (existing_case_result existing_case), tbl)
             else decide_and_create rt fx tbl transaction_data
         | None \<Rightarrow> decide_and_create rt fx tbl transaction_data)"

text \<open>\<open>process_dispute\<close>: the result dict and the case table after the call.\<close>

definition process_dispute ::
  "runtime \<Rightarrow> effects \<Rightarrow> case_table \<Rightarrow> pydict \<Rightarrow> pydict \<times> case_table" where
  "process_dispute rt fx tbl transaction_data =
     (case process_dispute_try rt fx tbl transaction_data of
        (Inr result, tbl') \<Rightarrow> (result, tbl')
      | (Inl e, tbl') \<Rightarrow>
          ([(''success'', PBool False),
            (''message'', PStr (''Error processing dispute: '' @ str_exn rt e))],
           tbl'))"

section \<open>The retry decorator (dynamo\_client.py)\<close>

text \<open>
  \<open>async_retry(max_attempts, delay)\<close> wraps an operation. What the operation does at
  its n-th invocation is an input of the model; the wrapper's result comes with the list
  of invocations and sleeps in the order they happen. \<open>FellThrough\<close> is the end of the
  \<open>for\<close> loop without a \<open>return\<close> (the wrapper then returns \<open>None\<close>).
\<close>

datatype 'a outcome = Returns 'a | Raises exn

datatype event = Call nat | Sleep rat

datatype 'a finished = Returned 'a | Raised exn | FellThrough

definition throttling_codes :: "string list" where
  "throttling_codes = [''ProvisionedThroughputExceededException'', ''ThrottlingException'']"

function retry_loop ::
  "nat \<Rightarrow> rat \<Rightarrow> (nat \<Rightarrow> 'a outcome) \<Rightarrow> nat \<Rightarrow> 'a finished \<times> event list" where
  "retry_loop max_attempts delay func attempt =
     (if max_attempts \<le> attempt then (FellThrough, [])
      else
        (case func attempt of
           Returns v \<Rightarrow> (Returned v, [Call attempt])
         | Raises (ClientError error_code) \<Rightarrow>
             if int attempt = int max_attempts - 1 then
               (Raised (ClientError error_code), [Call attempt])
             else if error_code \<in> set throttling_codes then
               (case retry_loop max_attempts delay func (Suc attempt) of
                  (r, events) \<Rightarrow>
                    (r, Call attempt # Sleep (delay * 2 ^ attempt) # events))
             else (Raised (ClientError error_code), [Call attempt])
         | Raises e \<Rightarrow>
             if int attempt = int max_attempts - 1 then (Raised e, [Call attempt])
             else
               (case retry_loop max_attempts delay func (Suc attempt) of
                  (r, events) \<Rightarrow> (r, Call attempt # Sleep delay # events))))"
  by pat_completeness auto
termination
  by (relation "measure (\<lambda>(max_attempts, delay, func, attempt). max_attempts - attempt)") auto

declare retry_loop.simps [simp del]

definition async_retry ::
  "nat \<Rightarrow> rat \<Rightarrow> (nat \<Rightarrow> 'a outcome) \<Rightarrow> 'a finished \<times> event list" where
  "async_retry max_attempts delay func = retry_loop max_attempts delay func 0"

text \<open>The store operations are wrapped with \<open>@async_retry(max_attempts=3, delay=0.5)\<close>.\<close>

definition store_retry :: "(nat \<Rightarrow> 'a outcome) \<Rightarrow> 'a finished \<times> event list" where
  "store_retry func = async_retry 3 (1 / 2) func"

definition is_call :: "event \<Rightarrow> bool" where
  "is_call ev = (case ev of Call n \<Rightarrow> True | Sleep d \<Rightarrow> False)"

section \<open>The query tool (dynamo\_query\_tool.py)\<close>

text \<open>
  The arguments of \<open>DynamoQueryCreatorTool._run\<close>, the conditions it builds with
  boto3's \<open>Key\<close> and \<open>Attr\<close>, and the calls it makes on the table object. What a call
  on the table returns or raises is an input of the model; the model returns the list of
  calls made together with the result dict.
\<close>

record descriptor =
  table_name :: string
  operation :: string
  key_condition :: "pydict option"
  filter_expression :: "pydict option"
  index_name :: "string option"
  attributes_to_get :: "string list option"
  limit :: "int option"
  item_data :: "pydict option"
  update_expression :: "pydict option"

datatype cond =
    KeyEq string pyval
  | KeyBeginsWith string pyval
  | KeyBetween string pyval pyval
  | AttrEq string pyval
  | And cond cond

datatype table_ref = CardsTable | CaseTable

text \<open>
  The keyword arguments of \<open>table.query\<close> and \<open>table.scan\<close>. \<open>None\<close> is a keyword
  that is not passed, except for \<open>KeyConditionExpression\<close>, which is always passed and
  may be Python's \<open>None\<close>.
\<close>

record query_params =
  KeyConditionExpression :: "cond option"
  IndexName :: "string option"
  ProjectionExpression :: "string option"
  Limit :: "int option"
  FilterExpression :: "cond option"

record scan_params =
  ScanProjectionExpression :: "string option"
  ScanLimit :: "int option"
  ScanFilterExpression :: "cond option"

datatype store_call =
    Query table_ref query_params
  | GetItem table_ref pydict
  | Scan table_ref scan_params
  | PutItem table_ref pydict
  | UpdateItem table_ref pydict string "(string \<times> string) list" pydict

type_synonym store = "store_call \<Rightarrow> exn + pydict"

definition valid_tables :: "string list" where
  "valid_tables =
     [''ptr_dispute_resol_customer_cards_and_transactions'', ''ptr_dispute_resol_case_db'']"

text \<open>\<open>d.items()\<close>: one pair per key, in insertion order.\<close>

definition dict_items :: "pydict \<Rightarrow> (string \<times> pyval) list" where
  "dict_items d = AList.clearjunk d"

text \<open>\<open>obj[i]\<close> for a non-negative int index, and \<open>len(obj)\<close>.\<close>

definition index :: "pyval \<Rightarrow> nat \<Rightarrow> exn + pyval" where
  "index obj i =
     (case obj of
        PList xs \<Rightarrow> if i < length xs then Inr (xs ! i) else Inl IndexError
      | PStr s \<Rightarrow> if i < length s then Inr (PStr [s ! i]) else Inl IndexError
      | PDict d \<Rightarrow> Inl (KeyError (PInt (int i)))
      | _ \<Rightarrow> Inl (TypeError obj))"

definition py_len :: "pyval \<Rightarrow> exn + int" where
  "py_len obj =
     (case obj of
        PList xs \<Rightarrow> Inr (int (length xs))
      | PStr s \<Rightarrow> Inr (int (length s))
      | PDict d \<Rightarrow> Inr (int (length (dict_items d)))
      | _ \<Rightarrow> Inl (TypeError obj))"

text \<open>\<open>sep.join(xs)\<close> and \<open>s.rstrip(chars)\<close>.\<close>

fun join :: "string \<Rightarrow> string list \<Rightarrow> string" where
  "join sep [] = []"
| "join sep [x] = x"
| "join sep (x # y # ys) = x @ sep @ join sep (y # ys)"

definition rstrip :: "string \<Rightarrow> string \<Rightarrow> string" where
  "rstrip chars s = rev (dropWhile (\<lambda>c. c \<in> set chars) (rev s))"

text \<open>
  The loop of \<open>_execute_query\<close> over \<open>key_condition.items()\<close>. A dict value with
  \<open>begins_with\<close> or \<open>between\<close> replaces the expression built so far; a dict value with
  neither leaves it as it is; any other value is an equality, joined with \<open>&\<close>.
\<close>

fun build_key_expr :: "(string \<times> pyval) list \<Rightarrow> cond option \<Rightarrow> exn + cond option" where
  "build_key_expr [] key_expr = Inr key_expr"
| "build_key_expr ((key, val) # more_items) key_expr =
     (case val of
        PDict v \<Rightarrow>
          if map_of v ''begins_with'' \<noteq> None then
            try_bind (subscript val ''begins_with'') (\<lambda>prefix.
              build_key_expr more_items (Some (KeyBeginsWith key prefix)))
          else if map_of v ''between'' \<noteq> None then
            try_bind (subscript val ''between'') (\<lambda>bounds.
            try_bind (index bounds 0) (\<lambda>lo.
            try_bind (index bounds 1) (\<lambda>hi.
              build_key_expr more_items (Some (KeyBetween key lo hi)))))
          else build_key_expr more_items key_expr
      | _ \<Rightarrow>
          (case key_expr of
             None \<Rightarrow> build_key_expr more_items (Some (KeyEq key val))
           | Some e \<Rightarrow> build_key_expr more_items (Some (And e (KeyEq key val)))))"

text \<open>The loop over \<open>filter_expression.items()\<close>.\<close>

fun build_filter_expr :: "(string \<times> pyval) list \<Rightarrow> cond option \<Rightarrow> cond option" where
  "build_filter_expr [] filter_expr = filter_expr"
| "build_filter_expr ((key, val) # more_items) filter_expr =
     (case filter_expr of
        None \<Rightarrow> build_filter_expr more_items (Some (AttrEq key val))
      | Some e \<Rightarrow> build_filter_expr more_items (Some (And e (AttrEq key val))))"

text \<open>The keyword arguments that are set only when the argument is truthy.\<close>

definition index_name_of :: "string option \<Rightarrow> string option" where
  "index_name_of index_nm =
     (case index_nm of None \<Rightarrow> None | Some name \<Rightarrow> if name \<noteq> [] then Some name else None)"

definition projection_of :: "string list option \<Rightarrow> string option" where
  "projection_of attributes =
     (case attributes of
        None \<Rightarrow> None
      | Some names \<Rightarrow> if names \<noteq> [] then Some (join '', '' names) else None)"

definition limit_of :: "int option \<Rightarrow> int option" where
  "limit_of lim_arg =
     (case lim_arg of None \<Rightarrow> None | Some n \<Rightarrow> if n \<noteq> 0 then Some n else None)"

definition filter_of :: "pydict option \<Rightarrow> cond option" where
  "filter_of filter_expr =
     (case filter_expr of
        None \<Rightarrow> None
      | Some kvs \<Rightarrow> if kvs \<noteq> [] then build_filter_expr (dict_items kvs) None else None)"

text \<open>The result of an exception handler, and the result of a query or a scan.\<close>

definition error_result :: "runtime \<Rightarrow> exn \<Rightarrow> pydict" where
  "error_result rt e = [(''success'', PBool False), (''error'', PStr (str_exn rt e))]"

definition items_result :: "pydict \<Rightarrow> exn + pydict" where
  "items_result response =
     (let items = get_default response ''Items'' (PList [])
      in try_bind (py_len items) (\<lambda>n.
           Inr [(''success'', PBool True),
                (''items'', items),
                (''count'', PInt n),
                (''scanned_count'', get_default response ''ScannedCount'' (PInt n))]))"

text \<open>\<open>_execute_query\<close>. No argument is compared with a list of index names.\<close>

definition execute_query ::
  "runtime \<Rightarrow> store \<Rightarrow> table_ref \<Rightarrow> pydict option \<Rightarrow> pydict option \<Rightarrow> string option \<Rightarrow>
   string list option \<Rightarrow> int option \<Rightarrow> pydict \<times> store_call list" where
  "execute_query rt st table key_cond filter_expr index_nm attributes lim_arg =
     (let required =
            ([(''success'', PBool False),
              (''error'', PStr ''key_condition required for query'')], [])
      in case key_cond of
           None \<Rightarrow> required
         | Some kc \<Rightarrow>
             if kc = [] then required
             else
               (case build_key_expr (dict_items kc) None of
                  Inl e \<Rightarrow> (error_result rt e, [])
                | Inr key_expr \<Rightarrow>
                    (let call =
                           Query table
                             \<lparr>KeyConditionExpression = key_expr,
                              IndexName = index_name_of index_nm,
                              ProjectionExpression = projection_of attributes,
                              Limit = limit_of lim_arg,
                              FilterExpression = filter_of filter_expr\<rparr>
                     in case st call of
                          Inl e \<Rightarrow> (error_result rt e, [call])
                        | Inr response \<Rightarrow>
                            (case items_result response of
                               Inl e \<Rightarrow> (error_result rt e, [call])
                             | Inr result \<Rightarrow> (result, [call])))))"

definition execute_get_item ::
  "runtime \<Rightarrow> store \<Rightarrow> table_ref \<Rightarrow> pydict option \<Rightarrow> pydict \<times> store_call list" where
  "execute_get_item rt st table key_cond =
     (let required =
            ([(''success'', PBool False),
              (''error'', PStr ''key_condition required for get_item'')], [])
      in case key_cond of
           None \<Rightarrow> required
         | Some kc \<Rightarrow>
             if kc = [] then required
             else
               (let call = GetItem table kc
                in case st call of
                     Inl e \<Rightarrow> (error_result rt e, [call])
                   | Inr response \<Rightarrow>
                       (case map_of response ''Item'' of
                          Some item \<Rightarrow>
                            ([(''success'', PBool True), (''item'', item)], [call])
                        | None \<Rightarrow>
                            ([(''success'', PBool False),
                              (''message'', PStr ''Item not found'')], [call]))))"

definition execute_scan ::
  "runtime \<Rightarrow> store \<Rightarrow> table_ref \<Rightarrow> pydict option \<Rightarrow> string list option \<Rightarrow> int option \<Rightarrow>
   pydict \<times> store_call list" where
  "execute_scan rt st table filter_expr attributes lim_arg =
     (let call =
            Scan table
              \<lparr>ScanProjectionExpression = projection_of attributes,
               ScanLimit = limit_of lim_arg,
               ScanFilterExpression = filter_of filter_expr\<rparr>
      in case st call of
           Inl e \<Rightarrow> (error_result rt e, [call])
         | Inr response \<Rightarrow>
             (case items_result response of
                Inl e \<Rightarrow> (error_result rt e, [call])
              | Inr result \<Rightarrow> (result, [call])))"

definition execute_put_item ::
  "runtime \<Rightarrow> store \<Rightarrow> table_ref \<Rightarrow> pydict option \<Rightarrow> pydict \<times> store_call list" where
  "execute_put_item rt st table item_arg =
     (let required =
            ([(''success'', PBool False),
              (''error'', PStr ''item_data required for put_item'')], [])
      in case item_arg of
           None \<Rightarrow> required
         | Some item \<Rightarrow>
             if item = [] then required
             else
               (let converted_data = map (map_prod id (convert_floats_to_decimal rt)) item;
                    call = PutItem table converted_data
                in case st call of
                     Inl e \<Rightarrow> (error_result rt e, [call])
                   | Inr response \<Rightarrow>
                       ([(''success'', PBool True),
                         (''message'', PStr ''Item created successfully'')], [call])))"

text \<open>
  The loop of \<open>_execute_update_item\<close>: the expression text, the attribute names and the
  attribute values.
\<close>

fun build_update ::
  "(string \<times> pyval) list \<Rightarrow> string \<times> (string \<times> string) list \<times> pydict \<Rightarrow>
   string \<times> (string \<times> string) list \<times> pydict" where
  "build_update [] acc = acc"
| "build_update ((key, val) # more_items) (update_expr, expr_names, expr_values) =
     build_update more_items
       (update_expr @ ''#'' @ key @ '' = '' @ '':'' @ key @ '', '',
        AList.update (''#'' @ key) key expr_names,
        AList.update ('':'' @ key) val expr_values)"

definition execute_update_item ::
  "runtime \<Rightarrow> store \<Rightarrow> string \<Rightarrow> table_ref \<Rightarrow> pydict option \<Rightarrow> pydict option \<Rightarrow>
   pydict \<times> store_call list" where
  "execute_update_item rt st now table key_cond updates_arg =
     (let key_required =
            ([(''success'', PBool False),
              (''error'', PStr ''key_condition required for update_item'')], []);
          update_required =
            ([(''success'', PBool False),
              (''error'', PStr ''update_expression required for update_item'')], [])
      in case key_cond of
           None \<Rightarrow> key_required
         | Some kc \<Rightarrow>
             if kc = [] then key_required
             else
               (case updates_arg of
                  None \<Rightarrow> update_required
                | Some updates \<Rightarrow>
                    if updates = [] then update_required
                    else
                      (case build_update (dict_items updates) (''SET '', [], []) of
                         (update_expr, expr_names, expr_values) \<Rightarrow>
                           (let call =
                                  UpdateItem table kc
                                    (rstrip '', '' update_expr @
                                       '', #updated_at = :updated_at'')
                                    (AList.update ''#updated_at'' ''updated_at'' expr_names)
                                    (AList.update '':updated_at'' (PStr now) expr_values)
                            in case st call of
                                 Inl e \<Rightarrow> (error_result rt e, [call])
                               | Inr response \<Rightarrow>
                                   ([(''success'', PBool True),
                                     (''message'', PStr ''Item updated successfully'')],
                                    [call])))))"

text \<open>
  \<open>_run\<close>: the table name is checked against \<open>valid_tables\<close>, then the operation is
  dispatched. \<open>now\<close> is the clock reading of \<open>_execute_update_item\<close>.
\<close>

definition invalid_table_result :: pydict where
  "invalid_table_result =
     [(''success'', PBool False),
      (''error'',
         PStr (''Invalid table name. Must be one of: '' @
               ''['ptr_dispute_resol_customer_cards_and_transactions', 'ptr_dispute_resol_case_db']''))]"

definition table_of :: "string \<Rightarrow> table_ref" where
  "table_of name =
     (if name = ''ptr_dispute_resol_customer_cards_and_transactions''
      then CardsTable else CaseTable)"

definition run :: "runtime \<Rightarrow> store \<Rightarrow> string \<Rightarrow> descriptor \<Rightarrow> pydict \<times> store_call list" where
  "run rt st now d =
     (if table_name d \<notin> set valid_tables then (invalid_table_result, [])
      else
        (let table = table_of (table_name d)
         in if operation d = ''query'' then
              execute_query rt st table (key_condition d) (filter_expression d)
                (index_name d) (attributes_to_get d) (limit d)
            else if operation d = ''get_item'' then
              execute_get_item rt st table (key_condition d)
            else if operation d = ''scan'' then
              execute_scan rt st table (filter_expression d) (attributes_to_get d) (limit d)
            else if operation d = ''put_item'' then
              execute_put_item rt st table (item_data d)
            else if operation d = ''update_item'' then
              execute_update_item rt st now table (key_condition d) (update_expression d)
            else
              ([(''success'', PBool False),
                (''error'', PStr (''Unsupported operation: '' @ operation d))], [])))"

section \<open>Names for what a call stores and returns\<close>

text \<open>
  The case dict after the three assignments of \<open>DisputeCaseCreationTool._run\<close>, the
  item that \<open>create_case\<close> hands to \<open>put_item\<close>, and the two results of a call that
  found no open case. The lemmas below show that the model of the code computes them.
\<close>

definition stamp_case :: "effects \<Rightarrow> pydict \<Rightarrow> pydict" where
  "stamp_case fx case_data =
     AList.update ''updated_at'' (PStr (utcnow_updated fx))
       (AList.update ''created_at'' (PStr (utcnow_created fx))
          (AList.update ''case_id'' (PStr (uuid4 fx)) case_data))"

definition persisted_item :: "runtime \<Rightarrow> effects \<Rightarrow> pydict \<Rightarrow> pydict" where
  "persisted_item rt fx transaction_data =
     map (map_prod id (convert_floats_to_decimal rt))
       (stamp_case fx (prepare_case_data rt transaction_data))"

definition created_result :: "runtime \<Rightarrow> effects \<Rightarrow> pydict \<Rightarrow> pydict" where
  "created_result rt fx transaction_data =
     (case determine_case_status rt transaction_data of
        (status, reason, credit_type, credit_amount) \<Rightarrow>
          [(''case_id'', PStr (uuid4 fx)),
           (''customer_id'', get transaction_data ''customer_id''),
           (''card_id'', get transaction_data ''card_id''),
           (''transaction_id'', get transaction_data ''transaction_id''),
           (''dispute_status'', PStr status),
           (''decision_reason'', PStr reason),
           (''created_at'', PStr (utcnow_created fx)),
           (''updated_at'', PStr (utcnow_updated fx)),
           (''auto_decided'', PBool True),
           (''requires_manual_review'', PBool (status = STATUS_FORWARDED_TO_ACQUIRER)),
           (''credit_type'', opt_str credit_type),
           (''credit_amount'', opt_float credit_amount),
           (''credit_issued'', PBool (credit_type \<noteq> None)),
           (''existing_case'', PBool False)])"

definition failure_result :: pydict where
  "failure_result =
     [(''case_id'', PNone),
      (''dispute_status'', PStr ''ERROR''),
      (''decision_reason'',
         PStr ''Failed to create dispute case: Failed to create case in database'')]"

text \<open>
  The most recent case of a transaction (the latest written), the case that the index
  query answers first, and the open cases of a transaction.
\<close>

definition first_answered_case :: "(pydict \<Rightarrow> nat) \<Rightarrow> case_table \<Rightarrow> pyval \<Rightarrow> pydict option" where
  "first_answered_case rank tbl transaction_id =
     (case query_transaction_index rank tbl transaction_id of
        [] \<Rightarrow> None
      | item # more_items \<Rightarrow> Some item)"


definition is_open :: "pydict \<Rightarrow> bool" where
  "is_open c =
     (get_default c ''dispute_status'' (PStr []) \<notin>
        {PStr ''RESOLVED_CUSTOMER'', PStr ''RESOLVED_ACQUIRER'', PStr ''CLOSED'',
         PStr ''REJECTED_TIME_BARRED''})"

definition open_cases :: "case_table \<Rightarrow> pyval \<Rightarrow> pydict list" where
  "open_cases tbl transaction_id =
     filter (\<lambda>c. map_of c ''transaction_id'' = Some transaction_id \<and> is_open c) tbl"

text \<open>The two invariants of a persisted case.\<close>

definition credit_invariant :: "pydict \<Rightarrow> bool" where
  "credit_invariant c = (get c ''credit_issued'' = PBool (get c ''credit_type'' \<noteq> PNone))"

definition review_invariant :: "pydict \<Rightarrow> bool" where
  "review_invariant c =
     (get c ''requires_manual_review'' =
        PBool (get c ''dispute_status'' = PStr ''FORWARDED_TO_ACQUIRER''))"

section \<open>Sample inputs\<close>

text \<open>
  A runtime (the clock stands at 2025-12-15T10:00:00; strings, dates, Decimals and
  printed floats are answered for the values the examples use), the transactions, the
  effects of the calls of \<open>process_dispute\<close> and the case tables of the examples.
\<close>

text \<open>
  \<open>float(i)\<close> in CPython: the nearest double, ties to the even mantissa, and
  OverflowError when the rounded value reaches 2 ** 1024.
\<close>

function bit_length :: "int \<Rightarrow> nat" where
  "bit_length a = (if a \<le> 0 then 0 else Suc (bit_length (a div 2)))"
  by pat_completeness auto
termination
  by (relation "measure nat") auto

declare bit_length.simps [simp del]

definition int_to_double :: "int \<Rightarrow> pynum option" where
  "int_to_double i =
     (let a = \<bar>i\<bar>;
          e = bit_length a - 53;
          q = a div 2 ^ e;
          r = a mod 2 ^ e;
          m = (if 2 ^ e < 2 * r \<or> (2 * r = 2 ^ e \<and> odd q) then q + 1 else q);
          v = m * 2 ^ e
      in if 2 ^ 1024 \<le> v then None
         else Some (Fin (of_int (if i < 0 then - v else v))))"

definition sample_runtime :: runtime where
  "sample_runtime =
     \<lparr>float_of_str =
        (\<lambda>s. if s = ''99.00'' then Some (Fin 99)
             else if s = ''100.00'' then Some (Fin 100)
             else if s = ''150.00'' then Some (Fin 150)
             else None),
      float_of_int = int_to_double,
      float_of_decimal = Some,
      repr_float =
        (\<lambda>x. if x = Fin 99 then ''99.0''
             else if x = Fin 100 then ''100.0''
             else if x = Fin 150 then ''150.0''
             else if x = Fin 999999 then ''999999.0''
             else ''nan''),
      decimal_of_float = (\<lambda>x. x),
      days_since =
        (\<lambda>s. if s = ''2024-01-15T10:00:00+00:00'' then Some 700
             else if s = ''2024-04-24T10:00:00+00:00'' then Some 600
             else if s = ''2025-12-05T10:00:00+00:00'' then Some 10
             else None),
      str_exn = (\<lambda>e. ''error''),
      str_of = (\<lambda>v. ''None'')\<rparr>"

definition txn_large :: pydict where
  "txn_large =
     [(''transaction_id'', PStr ''TXN002''),
      (''customer_id'', PStr ''CUST001''),
      (''card_number'', PStr ''1234''),
      (''amount'', PStr ''150.00''),
      (''currency'', PStr ''USD''),
      (''transaction_date'', PStr ''2025-12-05T10:00:00Z''),
      (''merchant'', PStr ''Amazon'')]"

definition txn_old_small :: pydict where
  "txn_old_small =
     [(''transaction_id'', PStr ''TXN001''),
      (''customer_id'', PStr ''CUST001''),
      (''amount'', PStr ''99.00''),
      (''transaction_date'', PStr ''2024-01-15T10:00:00Z''),
      (''merchant'', PStr ''Netflix'')]"

definition txn_boundary :: pydict where
  "txn_boundary =
     [(''transaction_id'', PStr ''TXN003''),
      (''customer_id'', PStr ''CUST001''),
      (''amount'', PStr ''$100.00''),
      (''transaction_date'', PStr ''2024-04-24T10:00:00Z''),
      (''merchant'', PStr ''Spotify'')]"

definition txn_old_no_amount :: pydict where
  "txn_old_no_amount =
     [(''transaction_id'', PStr ''TXN001''),
      (''customer_id'', PStr ''CUST001''),
      (''transaction_date'', PStr ''2024-01-15T10:00:00Z''),
      (''merchant'', PStr ''Netflix'')]"

definition txn_recent_no_amount :: pydict where
  "txn_recent_no_amount =
     [(''transaction_id'', PStr ''TXN004''),
      (''customer_id'', PStr ''CUST001''),
      (''transaction_date'', PStr ''2025-12-05T10:00:00Z''),
      (''merchant'', PStr ''Amazon'')]"

definition txn_no_id :: pydict where
  "txn_no_id =
     [(''customer_id'', PStr ''CUST001''),
      (''amount'', PStr ''150.00''),
      (''transaction_date'', PStr ''2025-12-05T10:00:00Z''),
      (''merchant'', PStr ''Amazon'')]"

text \<open>
  Two ranks for the answer of the index query: one that leaves the items in the order
  they were written, latest first, and one that sorts them by the primary key
  \<open>case_id\<close> (the ids of the examples differ in their last character only).
\<close>

definition rank_in_write_order :: "pydict \<Rightarrow> nat" where
  "rank_in_write_order c = 0"


definition fx_first :: effects where
  "fx_first =
     \<lparr>read_error = None, index_rank = rank_in_write_order, write_error = None,
      uuid4 = ''0b8f6f0e-5d0c-4a52-9f0e-000000000001'',
      utcnow_created = ''2025-12-15T10:00:00.000001'',
      utcnow_updated = ''2025-12-15T10:00:00.000002''\<rparr>"


definition fx_read_fails :: effects where
  "fx_read_fails =
     \<lparr>read_error = Some (ClientError ''ProvisionedThroughputExceededException''),
      index_rank = rank_in_write_order,
      write_error = None,
      uuid4 = ''0b8f6f0e-5d0c-4a52-9f0e-000000000003'',
      utcnow_created = ''2025-12-15T10:06:00.000001'',
      utcnow_updated = ''2025-12-15T10:06:00.000002''\<rparr>"

definition fx_write_fails :: effects where
  "fx_write_fails =
     \<lparr>read_error = None,
      index_rank = rank_in_write_order,
      write_error = Some (ClientError ''InternalServerError''),
      uuid4 = ''0b8f6f0e-5d0c-4a52-9f0e-000000000004'',
      utcnow_created = ''2025-12-15T10:07:00.000001'',
      utcnow_updated = ''2025-12-15T10:07:00.000002''\<rparr>"


definition tbl_after_first :: case_table where
  "tbl_after_first = snd (process_dispute sample_runtime fx_first [] txn_large)"




definition tbl_old_open :: case_table where
  "tbl_old_open =
     [[(''case_id'', PStr ''0b8f6f0e-5d0c-4a52-9f0e-000000000006''),
       (''transaction_id'', PStr ''TXN001''),
       (''dispute_status'', PStr ''FORWARDED_TO_ACQUIRER'')]]"

text \<open>A table that holds one open case filed under the identifier \<open>unknown\<close>.\<close>

definition tbl_unknown :: case_table where
  "tbl_unknown =
     [[(''case_id'', PStr ''0b8f6f0e-5d0c-4a52-9f0e-000000000009''),
       (''transaction_id'', PStr ''unknown''),
       (''dispute_status'', PStr ''FORWARDED_TO_ACQUIRER'')]]"

text \<open>
  Two operations under the retry decorator: one that raises a non-botocore exception
  once and then returns, one that is throttled twice and then returns.
\<close>

definition flaky_once :: "nat \<Rightarrow> pyval outcome" where
  "flaky_once n = (if n = 0 then Raises OtherException else Returns (PStr ''item''))"

definition throttled_twice :: "nat \<Rightarrow> pyval outcome" where
  "throttled_twice n =
     (if n < 2 then Raises (ClientError ''ThrottlingException'') else Returns (PStr ''item''))"

text \<open>
  A table object that rejects an index it does not have, as DynamoDB does, and answers
  every other call with an empty response.
\<close>

definition sample_store :: store where
  "sample_store call =
     (case call of
        Query table params \<Rightarrow>
          (case IndexName params of
             None \<Rightarrow> Inr [(''Items'', PList []), (''ScannedCount'', PInt 0)]
           | Some name \<Rightarrow>
               if name = ''TransactionIndex'' \<or> name = ''CustomerIndex''
               then Inr [(''Items'', PList []), (''ScannedCount'', PInt 0)]
               else Inl (ClientError ''ValidationException''))
      | _ \<Rightarrow> Inr [])"

definition query_by_transaction :: "string \<Rightarrow> string \<Rightarrow> descriptor" where
  "query_by_transaction table index_nm =
     \<lparr>table_name = table, operation = ''query'',
      key_condition = Some [(''transaction_id'', PStr ''TXN002'')],
      filter_expression = None, index_name = Some index_nm, attributes_to_get = None,
      limit = None, item_data = None, update_expression = None\<rparr>"

section \<open>Lemmas about the model\<close>

lemma map_of_map_prod:
  "map_of (map (map_prod id f) al) k = map_option f (map_of al k)"
  by (induction al) auto

lemma create_case_eq:
  "create_case rt wr tbl case_data =
     (if wr = None
      then (True, put_item tbl (map (map_prod id (convert_floats_to_decimal rt)) case_data))
      else (False, tbl))"
  by (simp add: create_case_def split: option.splits exn.splits)

lemma case_creation_run_ok:
  "write_error fx = None \<Longrightarrow>
   case_creation_run rt fx tbl cd =
     ([(''success'', PBool True), (''case_id'', PStr (uuid4 fx)),
       (''case_data'', PDict (stamp_case fx cd)),
       (''message'', PStr (''Case '' @ uuid4 fx @ '' created successfully''))],
      stamp_case fx cd,
      put_item tbl (map (map_prod id (convert_floats_to_decimal rt)) (stamp_case fx cd)))"
  by (simp add: case_creation_run_def create_case_eq stamp_case_def Let_def)

lemma case_creation_run_fail:
  "write_error fx \<noteq> None \<Longrightarrow>
   case_creation_run rt fx tbl cd =
     ([(''success'', PBool False), (''message'', PStr ''Failed to create case in database'')],
      stamp_case fx cd, tbl)"
  by (simp add: case_creation_run_def create_case_eq stamp_case_def Let_def)

lemma map_of_stamp_case:
  "map_of (stamp_case fx cd) k =
     (if k = ''updated_at'' then Some (PStr (utcnow_updated fx))
      else if k = ''created_at'' then Some (PStr (utcnow_created fx))
      else if k = ''case_id'' then Some (PStr (uuid4 fx))
      else map_of cd k)"
  by (simp add: stamp_case_def update_conv')

lemma map_of_prepare_ids:
  "map_of (prepare_case_data rt t) ''customer_id'' = Some (get t ''customer_id'')"
  "map_of (prepare_case_data rt t) ''card_id'' = Some (get t ''card_id'')"
  "map_of (prepare_case_data rt t) ''transaction_id'' = Some (get t ''transaction_id'')"
  by (cases "determine_case_status rt t"; simp add: prepare_case_data_def)+

lemma decide_and_create_ok:
  assumes "write_error fx = None"
  shows "decide_and_create rt fx tbl t =
           (Inr (created_result rt fx t), put_item tbl (persisted_item rt fx t))"
  using assms
  by (cases "determine_case_status rt t")
     (simp add: decide_and_create_def case_creation_run_ok subscript_def try_bind_def
      map_of_stamp_case map_of_prepare_ids created_result_def persisted_item_def)

lemma decide_and_create_fail:
  assumes "write_error fx \<noteq> None"
  shows "decide_and_create rt fx tbl t = (Inr failure_result, tbl)"
  using assms
  by (cases "determine_case_status rt t")
     (simp add: decide_and_create_def case_creation_run_fail subscript_def try_bind_def
      failure_result_def format_val_def)

lemma str_int_600: "str_int 600 = ''600''"
  by (simp add: str_int_def digits_nat.simps)

lemma get_open_case_nonempty:
  "get_open_case_for_transaction rd rank tbl tid = Some c \<Longrightarrow> c \<noteq> []"
  by (auto simp: get_open_case_for_transaction_def split: option.splits if_splits)

text \<open>
  \<open>process_dispute\<close> never reaches its exception handler: the result is one of three
  dicts.
\<close>

lemma process_dispute_eq:
  "process_dispute rt fx tbl t =
     (case get_open_case_for_transaction (read_error fx) (index_rank fx) tbl
             (get_default t ''transaction_id'' (PStr ''unknown'')) of
        Some c \<Rightarrow> (existing_case_result c, tbl)
      | None \<Rightarrow>
          if write_error fx = None
          then (created_result rt fx t, put_item tbl (persisted_item rt fx t))
          else (failure_result, tbl))"
proof (cases "get_open_case_for_transaction (read_error fx) (index_rank fx) tbl
                (get_default t ''transaction_id'' (PStr ''unknown''))")
  case None
  then show ?thesis
    by (simp add: process_dispute_def process_dispute_try_def
        decide_and_create_ok decide_and_create_fail)
next
  case (Some c)
  then have "c \<noteq> []" by (rule get_open_case_nonempty)
  with Some show ?thesis
    by (simp add: process_dispute_def process_dispute_try_def)
qed


lemma first_answered_case_member:
  assumes "first_answered_case rank tbl tid = Some c"
  shows "c \<in> set tbl" and "map_of c ''transaction_id'' = Some tid"
proof -
  from assms have "c \<in> set (query_transaction_index rank tbl tid)"
    by (auto simp: first_answered_case_def split: list.splits)
  then have "c \<in> set (cases_of_transaction tbl tid)"
    by (simp add: query_transaction_index_def)
  then show "c \<in> set tbl" and "map_of c ''transaction_id'' = Some tid"
    by (simp_all add: cases_of_transaction_def)
qed

lemma first_answered_case_nonempty:
  "first_answered_case rank tbl tid = Some c \<Longrightarrow> c \<noteq> []"
  using first_answered_case_member(2) [of rank tbl tid c] by auto


lemma get_case_by_transaction_eq:
  "get_case_by_transaction rd rank tbl tid =
     (if rd = None then first_answered_case rank tbl tid else None)"
  by (simp add: get_case_by_transaction_def first_answered_case_def
      split: option.splits exn.splits)

lemma get_open_case_eq:
  "get_open_case_for_transaction rd rank tbl tid =
     (if rd = None then
        (case first_answered_case rank tbl tid of
           None \<Rightarrow> None
         | Some c \<Rightarrow> if is_open c then Some c else None)
      else None)"
proof (cases "first_answered_case rank tbl tid")
  case None
  then show ?thesis
    by (simp add: get_open_case_for_transaction_def get_case_by_transaction_eq)
next
  case (Some c)
  then have "c \<noteq> []" by (rule first_answered_case_nonempty)
  with Some show ?thesis
    by (simp add: get_open_case_for_transaction_def get_case_by_transaction_eq
        is_open_def closed_statuses_def)
qed

lemma first_answered_case_empty: "first_answered_case rank [] tid = None"
  by (simp add: first_answered_case_def query_transaction_index_def cases_of_transaction_def)

lemma persisted_item_lookup:
  "map_of (persisted_item rt fx t) ''case_id'' = Some (PStr (uuid4 fx))"
  "map_of (persisted_item rt fx t) ''transaction_id'' =
     Some (convert_floats_to_decimal rt (get t ''transaction_id''))"
  "map_of (persisted_item rt fx t) ''dispute_status'' =
     Some (PStr (fst (determine_case_status rt t)))"
  "map_of (persisted_item rt fx t) ''requires_manual_review'' =
     Some (PBool (fst (determine_case_status rt t) = ''FORWARDED_TO_ACQUIRER''))"
  "map_of (persisted_item rt fx t) ''credit_type'' =
     Some (opt_str (fst (snd (snd (determine_case_status rt t)))))"
  "map_of (persisted_item rt fx t) ''credit_issued'' =
     Some (PBool (fst (snd (snd (determine_case_status rt t))) \<noteq> None))"
  by (cases "determine_case_status rt t";
      simp add: persisted_item_def map_of_map_prod map_of_stamp_case prepare_case_data_def
        opt_str_def STATUS_FORWARDED_TO_ACQUIRER_def split: option.splits)+

lemma created_result_lookup:
  "get (created_result rt fx t) ''case_id'' = PStr (uuid4 fx)"
  "get (created_result rt fx t) ''existing_case'' = PBool False"
  "get (created_result rt fx t) ''transaction_id'' = get t ''transaction_id''"
  "get (created_result rt fx t) ''dispute_status'' = PStr (fst (determine_case_status rt t))"
  by (cases "determine_case_status rt t";
      simp add: created_result_def get_def get_default_def)+

lemma set_put_item: "set (put_item tbl item) \<subseteq> insert item (set tbl)"
  by (auto simp: put_item_def)

lemma put_item_fresh:
  assumes "\<forall>c \<in> set tbl. map_of c ''case_id'' \<noteq> map_of item ''case_id''"
  shows "put_item tbl item = item # tbl"
  using assms by (simp add: put_item_def)

lemma persisted_item_invariants:
  "credit_invariant (persisted_item rt fx t)" "review_invariant (persisted_item rt fx t)"
  by (auto simp: credit_invariant_def review_invariant_def get_def get_default_def
      persisted_item_lookup opt_str_def split: option.splits)

lemma sample_ages:
  "calculate_transaction_age_days sample_runtime (transaction_date_of txn_old_small) = 700"
  "calculate_transaction_age_days sample_runtime (transaction_date_of txn_boundary) = 600"
  "calculate_transaction_age_days sample_runtime (transaction_date_of txn_large) = 10"
  "calculate_transaction_age_days sample_runtime (transaction_date_of txn_old_no_amount) = 700"
  "calculate_transaction_age_days sample_runtime (transaction_date_of txn_no_id) = 10"
  by code_simp+

lemma sample_amounts:
  "extract_amount_usd sample_runtime txn_old_small = Fin 99"
  "extract_amount_usd sample_runtime txn_boundary = Fin 100"
  "extract_amount_usd sample_runtime txn_large = Fin 150"
  "extract_amount_usd sample_runtime txn_old_no_amount = Fin 999999"
  "extract_amount_usd sample_runtime txn_no_id = Fin 150"
  by code_simp+

lemma sample_reasons:
  "reason_resolved sample_runtime (Fin 100) =
     ''Small amount dispute ($100.0) resolved in customer's favor with permanent credit''"
  "reason_forwarded sample_runtime (Fin 150) =
     ''Amount $150.0 forwarded to acquirer for investigation with temporary credit issued''"
  "reason_forwarded sample_runtime (Fin 999999) =
     ''Amount $999999.0 forwarded to acquirer for investigation with temporary credit issued''"
  by code_simp+

lemma sample_decisions:
  "determine_case_status sample_runtime txn_large =
     (''FORWARDED_TO_ACQUIRER'',
      ''Amount $150.0 forwarded to acquirer for investigation with temporary credit issued'',
      Some ''TEMPORARY'', Some (Fin 150))"
  "determine_case_status sample_runtime txn_no_id =
     (''FORWARDED_TO_ACQUIRER'',
      ''Amount $150.0 forwarded to acquirer for investigation with temporary credit issued'',
      Some ''TEMPORARY'', Some (Fin 150))"
  "determine_case_status sample_runtime txn_old_no_amount =
     (''REJECTED_TIME_BARRED'', ''Transaction is 700 days old, exceeding the 600 day limit'',
      None, None)"
  by code_simp+

lemma determine_case_status_eq:
  "determine_case_status rt t =
     (if calculate_transaction_age_days rt (transaction_date_of t) > 600 then
        (''REJECTED_TIME_BARRED'',
         ''Transaction is '' @
           str_int (calculate_transaction_age_days rt (transaction_date_of t)) @
           '' days old, exceeding the 600 day limit'',
         None, None)
      else if le_num (extract_amount_usd rt t) (Fin 100) then
        (''RESOLVED_CUSTOMER'', reason_resolved rt (extract_amount_usd rt t),
         Some ''PERMANENT'', Some (extract_amount_usd rt t))
      else
        (''FORWARDED_TO_ACQUIRER'', reason_forwarded rt (extract_amount_usd rt t),
         Some ''TEMPORARY'', Some (extract_amount_usd rt t)))"
  by (simp add: determine_case_status_def Let_def reason_time_barred_def
      str_int_600 TIME_BARRED_DAYS_def AUTO_RESOLVE_AMOUNT_USD_def
      STATUS_REJECTED_TIME_BARRED_def STATUS_RESOLVED_CUSTOMER_def
      STATUS_FORWARDED_TO_ACQUIRER_def CREDIT_TYPE_PERMANENT_def
      CREDIT_TYPE_TEMPORARY_def)

lemma tbl_after_first_eq:
  "tbl_after_first = [persisted_item sample_runtime fx_first txn_large]"
  by (simp add: tbl_after_first_def process_dispute_eq get_open_case_eq
      first_answered_case_empty fx_first_def put_item_def)

lemma extract_amount_absent:
  assumes "map_of t ''amount_usd'' = None" and "map_of t ''amount'' = None"
    and "map_of t ''transaction_amount'' = None" and "map_of t ''value'' = None"
  shows "extract_amount_usd rt t = Fin 999999"
  using assms by (simp add: extract_amount_usd_def amount_fields_def)

lemma process_dispute_try_no_exception:
  "\<not> isl (fst (process_dispute_try rt fx tbl t))"
proof (cases "get_open_case_for_transaction (read_error fx) (index_rank fx) tbl
                (get_default t ''transaction_id'' (PStr ''unknown''))")
  case None
  then show ?thesis
    by (cases "write_error fx = None")
       (simp_all add: process_dispute_try_def decide_and_create_ok decide_and_create_fail)
next
  case (Some c)
  then have "c \<noteq> []" by (rule get_open_case_nonempty)
  with Some show ?thesis
    by (simp add: process_dispute_try_def)
qed

lemma first_call_sample:
  "process_dispute sample_runtime fx_first [] txn_large =
     (created_result sample_runtime fx_first txn_large, tbl_after_first)"
  by (simp add: tbl_after_first_eq)
     (simp add: process_dispute_eq get_open_case_eq first_answered_case_empty fx_first_def
       put_item_def)

lemma failed_read_lookup:
  assumes "rd \<noteq> None"
  shows "get_case_by_transaction rd rank tbl tid = None"
    and "get_open_case_for_transaction rd rank tbl tid = None"
proof -
  from assms have no: "(rd = None) = False" by simp
  show "get_case_by_transaction rd rank tbl tid = None"
    by (simp only: get_case_by_transaction_eq no if_False)
  show "get_open_case_for_transaction rd rank tbl tid = None"
    by (simp only: get_open_case_eq no if_False)
qed

lemma failed_read_try:
  assumes "read_error fx \<noteq> None"
  shows "process_dispute_try rt fx tbl t = decide_and_create rt fx tbl t"
  by (simp add: process_dispute_try_def failed_read_lookup(2) [OF assms])

lemma failed_read_process:
  assumes "read_error fx \<noteq> None"
  shows "process_dispute rt fx tbl t =
           (if write_error fx = None
            then (created_result rt fx t, put_item tbl (persisted_item rt fx t))
            else (failure_result, tbl))"
  by (simp add: process_dispute_eq failed_read_lookup(2) [OF assms])

lemma decided_status:
  "fst (determine_case_status rt t) = ''REJECTED_TIME_BARRED'' \<or>
   fst (determine_case_status rt t) = ''RESOLVED_CUSTOMER'' \<or>
   fst (determine_case_status rt t) = ''FORWARDED_TO_ACQUIRER''"
  by (simp add: determine_case_status_eq)

lemma persisted_item_open:
  "is_open (persisted_item rt fx t) =
     (fst (determine_case_status rt t) = ''FORWARDED_TO_ACQUIRER'')"
  using decided_status [of rt t]
  by (auto simp: is_open_def get_default_def persisted_item_lookup)


lemma retry_loop_calls:
  "length (filter is_call (snd (retry_loop max_attempts delay func attempt))) \<le>
     max_attempts - attempt"
proof (induction max_attempts delay func attempt rule: retry_loop.induct)
  case (1 max_attempts delay func attempt)
  show ?case
  proof (cases "max_attempts \<le> attempt")
    case True
    then show ?thesis
      by (simp add: retry_loop.simps [of max_attempts delay func attempt])
  next
    case False
    then have room: "Suc (max_attempts - Suc attempt) \<le> max_attempts - attempt"
      by simp
    show ?thesis
    proof (cases "func attempt")
      case (Returns v)
      with False show ?thesis
        by (simp add: retry_loop.simps [of max_attempts delay func attempt] is_call_def)
    next
      case (Raises e)
      with False "1.IH" room show ?thesis
        by (cases e)
           (auto simp: retry_loop.simps [of max_attempts delay func attempt] is_call_def
              split: prod.splits)
    qed
  qed
qed

section \<open>The claims\<close>

text \<open>
  C1. For every transaction the decision engine applies three rules, first match wins:
  an age above 600 days gives REJECTED\_TIME\_BARRED with a reason that prints the age
  and with no credit type and no credit amount; otherwise an extracted amount
  \<open><= 100.0\<close> gives RESOLVED\_CUSTOMER with a PERMANENT credit of that amount;
  otherwise FORWARDED\_TO\_ACQUIRER with a TEMPORARY credit of that amount. An age of
  exactly 600 is not time-barred and an amount of exactly 100.0 resolves to the
  customer.
\<close>

theorem decision_rules:
  "(calculate_transaction_age_days rt (transaction_date_of t) > 600 \<longrightarrow>
      determine_case_status rt t =
        (''REJECTED_TIME_BARRED'',
         ''Transaction is '' @
           str_int (calculate_transaction_age_days rt (transaction_date_of t)) @
           '' days old, exceeding the 600 day limit'',
         None, None)) \<and>
   (calculate_transaction_age_days rt (transaction_date_of t) \<le> 600 \<and>
    le_num (extract_amount_usd rt t) (Fin 100) \<longrightarrow>
      determine_case_status rt t =
        (''RESOLVED_CUSTOMER'', reason_resolved rt (extract_amount_usd rt t),
         Some ''PERMANENT'', Some (extract_amount_usd rt t))) \<and>
   (calculate_transaction_age_days rt (transaction_date_of t) \<le> 600 \<and>
    \<not> le_num (extract_amount_usd rt t) (Fin 100) \<longrightarrow>
      determine_case_status rt t =
        (''FORWARDED_TO_ACQUIRER'', reason_forwarded rt (extract_amount_usd rt t),
         Some ''TEMPORARY'', Some (extract_amount_usd rt t))) \<and>
   (calculate_transaction_age_days rt (transaction_date_of t) = 600 \<longrightarrow>
      fst (determine_case_status rt t) \<noteq> ''REJECTED_TIME_BARRED'') \<and>
   (calculate_transaction_age_days rt (transaction_date_of t) \<le> 600 \<and>
    extract_amount_usd rt t = Fin 100 \<longrightarrow>
      fst (determine_case_status rt t) = ''RESOLVED_CUSTOMER'')"
proof -
  define age where "age = calculate_transaction_age_days rt (transaction_date_of t)"
  define amt where "amt = extract_amount_usd rt t"
  have unfolded:
    "determine_case_status rt t =
       (if age > 600 then
          (''REJECTED_TIME_BARRED'',
           ''Transaction is '' @ str_int age @ '' days old, exceeding the 600 day limit'',
           None, None)
        else if le_num amt (Fin 100) then
          (''RESOLVED_CUSTOMER'', reason_resolved rt amt, Some ''PERMANENT'', Some amt)
        else
          (''FORWARDED_TO_ACQUIRER'', reason_forwarded rt amt, Some ''TEMPORARY'', Some amt))"
    by (simp add: determine_case_status_eq age_def amt_def)
  have barred: "age > 600 \<longrightarrow> determine_case_status rt t =
      (''REJECTED_TIME_BARRED'',
       ''Transaction is '' @ str_int age @ '' days old, exceeding the 600 day limit'',
       None, None)"
    by (simp add: unfolded)
  have resolved: "age \<le> 600 \<and> le_num amt (Fin 100) \<longrightarrow> determine_case_status rt t =
      (''RESOLVED_CUSTOMER'', reason_resolved rt amt, Some ''PERMANENT'', Some amt)"
    by (simp add: unfolded)
  have forwarded: "age \<le> 600 \<and> \<not> le_num amt (Fin 100) \<longrightarrow> determine_case_status rt t =
      (''FORWARDED_TO_ACQUIRER'', reason_forwarded rt amt, Some ''TEMPORARY'', Some amt)"
    by (simp add: unfolded)
  have edge_age: "age = 600 \<longrightarrow> fst (determine_case_status rt t) \<noteq> ''REJECTED_TIME_BARRED''"
    by (simp add: unfolded)
  have edge_amount:
    "age \<le> 600 \<and> amt = Fin 100 \<longrightarrow> fst (determine_case_status rt t) = ''RESOLVED_CUSTOMER''"
    by (simp add: unfolded)
  from barred resolved forwarded edge_age edge_amount show ?thesis
    unfolding age_def amt_def by blast
qed

theorem decision_rules_witness:
  "determine_case_status sample_runtime txn_old_small =
     (''REJECTED_TIME_BARRED'', ''Transaction is 700 days old, exceeding the 600 day limit'',
      None, None) \<and>
   determine_case_status sample_runtime txn_boundary =
     (''RESOLVED_CUSTOMER'',
      ''Small amount dispute ($100.0) resolved in customer's favor with permanent credit'',
      Some ''PERMANENT'', Some (Fin 100)) \<and>
   determine_case_status sample_runtime txn_large =
     (''FORWARDED_TO_ACQUIRER'',
      ''Amount $150.0 forwarded to acquirer for investigation with temporary credit issued'',
      Some ''TEMPORARY'', Some (Fin 150))"
proof -
  have digits: "str_int 700 = ''700''"
    by (simp add: str_int_def digits_nat.simps)
  from decision_rules [of sample_runtime txn_old_small]
  have a: "determine_case_status sample_runtime txn_old_small =
     (''REJECTED_TIME_BARRED'', ''Transaction is 700 days old, exceeding the 600 day limit'',
      None, None)"
    by (simp add: sample_ages digits)
  from decision_rules [of sample_runtime txn_boundary]
  have b: "determine_case_status sample_runtime txn_boundary =
     (''RESOLVED_CUSTOMER'',
      ''Small amount dispute ($100.0) resolved in customer's favor with permanent credit'',
      Some ''PERMANENT'', Some (Fin 100))"
    by (simp add: sample_ages sample_amounts sample_reasons)
  from decision_rules [of sample_runtime txn_large]
  have c: "determine_case_status sample_runtime txn_large =
     (''FORWARDED_TO_ACQUIRER'',
      ''Amount $150.0 forwarded to acquirer for investigation with temporary credit issued'',
      Some ''TEMPORARY'', Some (Fin 150))"
    by (simp add: sample_ages sample_amounts sample_reasons)
  from a b c show ?thesis by simp
qed







text \<open>
  C4. A call of \<open>process_dispute\<close> writes nothing or writes one item, the converted
  and stamped case; that item satisfies both invariants, and so does every case the call
  adds to the case table: \<open>credit_issued\<close> is true exactly when \<open>credit_type\<close> is not
  null, and \<open>requires_manual_review\<close> is true exactly when \<open>dispute_status\<close> is
  FORWARDED\_TO\_ACQUIRER.
\<close>

theorem persisted_case_invariants:
  "(snd (process_dispute rt fx tbl t) = tbl \<or>
    snd (process_dispute rt fx tbl t) = put_item tbl (persisted_item rt fx t)) \<and>
   credit_invariant (persisted_item rt fx t) \<and>
   review_invariant (persisted_item rt fx t) \<and>
   (\<forall>c \<in> set (snd (process_dispute rt fx tbl t)).
      c \<notin> set tbl \<longrightarrow> credit_invariant c \<and> review_invariant c)"
proof (intro conjI ballI impI)
  show written: "snd (process_dispute rt fx tbl t) = tbl \<or>
        snd (process_dispute rt fx tbl t) = put_item tbl (persisted_item rt fx t)"
    by (simp add: process_dispute_eq split: option.splits)
  show "credit_invariant (persisted_item rt fx t)"
    and "review_invariant (persisted_item rt fx t)"
    by (rule persisted_item_invariants)+
  fix c
  assume c: "c \<in> set (snd (process_dispute rt fx tbl t))" and new: "c \<notin> set tbl"
  from written c new have "c \<in> set (put_item tbl (persisted_item rt fx t))"
    by auto
  with new set_put_item [of tbl "persisted_item rt fx t"]
  have item: "c = persisted_item rt fx t" by auto
  show "credit_invariant c" and "review_invariant c"
    by (simp_all add: item persisted_item_invariants)
qed

theorem persisted_case_invariants_witness:
  "snd (process_dispute sample_runtime fx_first [] txn_large) =
     [persisted_item sample_runtime fx_first txn_large] \<and>
   credit_invariant (persisted_item sample_runtime fx_first txn_large) \<and>
   review_invariant (persisted_item sample_runtime fx_first txn_large) \<and>
   get (persisted_item sample_runtime fx_first txn_large) ''credit_issued'' = PBool True \<and>
   get (persisted_item sample_runtime fx_first txn_large) ''requires_manual_review'' =
     PBool True"
proof -
  have stored: "snd (process_dispute sample_runtime fx_first [] txn_large) =
      [persisted_item sample_runtime fx_first txn_large]"
    using tbl_after_first_eq by (simp add: tbl_after_first_def)
  with persisted_case_invariants [of sample_runtime fx_first "[]" txn_large]
  have inv: "credit_invariant (persisted_item sample_runtime fx_first txn_large) \<and>
             review_invariant (persisted_item sample_runtime fx_first txn_large)"
    by simp
  from stored inv show ?thesis
    by (simp add: get_def get_default_def persisted_item_lookup sample_decisions)
qed

text \<open>
  C5, as the code has it. For a transaction with none of the fields \<open>amount_usd\<close>,
  \<open>amount\<close>, \<open>transaction_amount\<close>, \<open>value\<close>, the extracted amount is the sentinel
  999999.0 and nothing is raised; the decision is FORWARDED\_TO\_ACQUIRER with a
  TEMPORARY credit of 999999.0 when the age is at most 600 days, and
  REJECTED\_TIME\_BARRED with no credit when the age is above 600 days.
\<close>

theorem missing_amount_decision:
  assumes "map_of t ''amount_usd'' = None" and "map_of t ''amount'' = None"
    and "map_of t ''transaction_amount'' = None" and "map_of t ''value'' = None"
  shows "extract_amount_usd rt t = Fin 999999 \<and>
         (calculate_transaction_age_days rt (transaction_date_of t) \<le> 600 \<longrightarrow>
            determine_case_status rt t =
              (''FORWARDED_TO_ACQUIRER'', reason_forwarded rt (Fin 999999),
               Some ''TEMPORARY'', Some (Fin 999999))) \<and>
         (calculate_transaction_age_days rt (transaction_date_of t) > 600 \<longrightarrow>
            determine_case_status rt t =
              (''REJECTED_TIME_BARRED'',
               ''Transaction is '' @
                 str_int (calculate_transaction_age_days rt (transaction_date_of t)) @
                 '' days old, exceeding the 600 day limit'',
               None, None))"
proof -
  have sentinel: "extract_amount_usd rt t = Fin 999999"
    using assms by (rule extract_amount_absent)
  have above: "\<not> le_num (Fin 999999) (Fin 100)"
    by simp
  from sentinel above show ?thesis
    by (simp add: determine_case_status_eq)
qed

theorem missing_amount_decision_witness:
  "map_of txn_recent_no_amount ''amount_usd'' = None \<and>
   map_of txn_recent_no_amount ''amount'' = None \<and>
   map_of txn_recent_no_amount ''transaction_amount'' = None \<and>
   map_of txn_recent_no_amount ''value'' = None \<and>
   extract_amount_usd sample_runtime txn_recent_no_amount = Fin 999999 \<and>
   determine_case_status sample_runtime txn_recent_no_amount =
     (''FORWARDED_TO_ACQUIRER'',
      ''Amount $999999.0 forwarded to acquirer for investigation with temporary credit issued'',
      Some ''TEMPORARY'', Some (Fin 999999))"
proof -
  have absent:
    "map_of txn_recent_no_amount ''amount_usd'' = None"
    "map_of txn_recent_no_amount ''amount'' = None"
    "map_of txn_recent_no_amount ''transaction_amount'' = None"
    "map_of txn_recent_no_amount ''value'' = None"
    by (simp_all add: txn_recent_no_amount_def)
  have age: "calculate_transaction_age_days sample_runtime
               (transaction_date_of txn_recent_no_amount) = 10"
    by code_simp
  from missing_amount_decision [OF absent, of sample_runtime] age absent show ?thesis
    by (simp add: sample_reasons)
qed

text \<open>
  C5 as stated fails for a transaction that is 700 days old and has no amount field: the
  time-bar rule comes first and the decision is REJECTED\_TIME\_BARRED.
\<close>

theorem missing_amount_time_barred:
  "map_of txn_old_no_amount ''amount_usd'' = None \<and>
   map_of txn_old_no_amount ''amount'' = None \<and>
   map_of txn_old_no_amount ''transaction_amount'' = None \<and>
   map_of txn_old_no_amount ''value'' = None \<and>
   determine_case_status sample_runtime txn_old_no_amount =
     (''REJECTED_TIME_BARRED'', ''Transaction is 700 days old, exceeding the 600 day limit'',
      None, None)"
  by (simp add: sample_decisions) (simp add: txn_old_no_amount_def)

text \<open>
  C6, as the code has it. When \<open>transaction_id\<close> is absent, \<open>process_dispute\<close> raises
  nothing: it looks for an open case under the identifier \<open>unknown\<close>; a case found there
  is returned as the existing case, and otherwise a case is decided and created whose
  \<open>transaction_id\<close> is null.
\<close>

theorem absent_transaction_id:
  assumes "map_of t ''transaction_id'' = None"
  shows "process_dispute rt fx tbl t =
           (case get_open_case_for_transaction (read_error fx) (index_rank fx) tbl (PStr ''unknown'') of
              Some c \<Rightarrow> (existing_case_result c, tbl)
            | None \<Rightarrow>
                if write_error fx = None
                then (created_result rt fx t, put_item tbl (persisted_item rt fx t))
                else (failure_result, tbl)) \<and>
         get (created_result rt fx t) ''transaction_id'' = PNone \<and>
         map_of (persisted_item rt fx t) ''transaction_id'' = Some PNone \<and>
         \<not> isl (fst (process_dispute_try rt fx tbl t))"
proof -
  from assms have key: "get_default t ''transaction_id'' (PStr ''unknown'') = PStr ''unknown''"
    by (simp add: get_default_def)
  from assms have null: "get t ''transaction_id'' = PNone"
    by (simp add: get_def get_default_def)
  show ?thesis
    by (simp add: process_dispute_eq key created_result_lookup persisted_item_lookup null
        process_dispute_try_no_exception)
qed

theorem absent_transaction_id_witness:
  "map_of txn_no_id ''transaction_id'' = None \<and>
   process_dispute sample_runtime fx_first [] txn_no_id =
     (created_result sample_runtime fx_first txn_no_id,
      [persisted_item sample_runtime fx_first txn_no_id]) \<and>
   get (created_result sample_runtime fx_first txn_no_id) ''transaction_id'' = PNone"
proof -
  have absent: "map_of txn_no_id ''transaction_id'' = None"
    by (simp add: txn_no_id_def)
  have no_open: "get_open_case_for_transaction (read_error fx_first) (index_rank fx_first) [] (PStr ''unknown'') = None"
    by (simp add: get_open_case_eq first_answered_case_empty fx_first_def)
  have ok: "write_error fx_first = None"
    by (simp add: fx_first_def)
  note call = absent_transaction_id [OF absent, of sample_runtime fx_first "[]"]
  from call have "process_dispute sample_runtime fx_first [] txn_no_id =
      (created_result sample_runtime fx_first txn_no_id,
       put_item [] (persisted_item sample_runtime fx_first txn_no_id))"
    by (simp add: no_open ok)
  moreover from call
  have "get (created_result sample_runtime fx_first txn_no_id) ''transaction_id'' = PNone"
    by simp
  ultimately show ?thesis
    using absent by (simp add: put_item_def)
qed

text \<open>
  C6 as stated fails for a transaction without \<open>transaction_id\<close>: on a table that holds
  an open case filed under \<open>unknown\<close> the call returns that case, and on an empty table
  it creates a forwarded case.
\<close>

theorem absent_transaction_id_substitute:
  "map_of txn_no_id ''transaction_id'' = None \<and>
   get (fst (process_dispute sample_runtime fx_first tbl_unknown txn_no_id)) ''existing_case'' =
     PBool True \<and>
   get (fst (process_dispute sample_runtime fx_first tbl_unknown txn_no_id)) ''transaction_id'' =
     PStr ''unknown'' \<and>
   get (fst (process_dispute sample_runtime fx_first [] txn_no_id)) ''existing_case'' =
     PBool False \<and>
   get (fst (process_dispute sample_runtime fx_first [] txn_no_id)) ''dispute_status'' =
     PStr ''FORWARDED_TO_ACQUIRER'' \<and>
   length (snd (process_dispute sample_runtime fx_first [] txn_no_id)) = 1"
  by code_simp

text \<open>
  C7, as the code has it. When no open case is found and the write of the new case
  fails, \<open>process_dispute\<close> returns a result of exactly three entries, \<open>case_id\<close> null,
  \<open>dispute_status\<close> ERROR and a \<open>decision_reason\<close> that reports the failed write, and
  leaves the case table as it was.
\<close>

theorem persistence_failure_result:
  assumes "get_open_case_for_transaction (read_error fx) (index_rank fx) tbl
             (get_default t ''transaction_id'' (PStr ''unknown'')) = None"
    and "write_error fx \<noteq> None"
  shows "process_dispute rt fx tbl t =
           ([(''case_id'', PNone),
             (''dispute_status'', PStr ''ERROR''),
             (''decision_reason'',
                PStr ''Failed to create dispute case: Failed to create case in database'')],
            tbl)"
proof -
  from assms(2) have "(write_error fx = None) = False"
    by simp
  with assms(1) show ?thesis
    by (simp only: process_dispute_eq failure_result_def option.case if_False)
qed

theorem persistence_failure_result_witness:
  "get_open_case_for_transaction (read_error fx_write_fails) (index_rank fx_write_fails) []
     (get_default txn_large ''transaction_id'' (PStr ''unknown'')) = None \<and>
   write_error fx_write_fails = Some (ClientError ''InternalServerError'') \<and>
   process_dispute sample_runtime fx_write_fails [] txn_large =
     ([(''case_id'', PNone),
       (''dispute_status'', PStr ''ERROR''),
       (''decision_reason'',
          PStr ''Failed to create dispute case: Failed to create case in database'')],
      [])"
proof -
  have no_open: "get_open_case_for_transaction (read_error fx_write_fails) (index_rank fx_write_fails) []
      (get_default txn_large ''transaction_id'' (PStr ''unknown'')) = None"
    by (simp add: get_open_case_eq first_answered_case_empty)
  have fails: "write_error fx_write_fails = Some (ClientError ''InternalServerError'')"
    by (simp add: fx_write_fails_def)
  then have "write_error fx_write_fails \<noteq> None" by simp
  from persistence_failure_result [OF no_open this, of sample_runtime] no_open fails
  show ?thesis by simp
qed

text \<open>
  C7 as stated fails: the decision for the sample transaction is FORWARDED\_TO\_ACQUIRER
  with a TEMPORARY credit of 150.0, and the result of the call whose write fails holds
  the status ERROR, no \<open>credit_type\<close> and no \<open>credit_amount\<close>.
\<close>

theorem persistence_failure_drops_decision:
  "determine_case_status sample_runtime txn_large =
     (''FORWARDED_TO_ACQUIRER'',
      ''Amount $150.0 forwarded to acquirer for investigation with temporary credit issued'',
      Some ''TEMPORARY'', Some (Fin 150)) \<and>
   map_of (fst (process_dispute sample_runtime fx_write_fails [] txn_large)) ''dispute_status'' =
     Some (PStr ''ERROR'') \<and>
   map_of (fst (process_dispute sample_runtime fx_write_fails [] txn_large)) ''credit_type'' =
     None \<and>
   map_of (fst (process_dispute sample_runtime fx_write_fails [] txn_large)) ''credit_amount'' =
     None \<and>
   map_of (fst (process_dispute sample_runtime fx_write_fails [] txn_large)) ''decision_reason'' =
     Some (PStr ''Failed to create dispute case: Failed to create case in database'')"
  by code_simp

text \<open>
  C8, as the code has it. For an operation under \<open>@async_retry(max_attempts=3,
  delay=0.5)\<close>: a throttling \<open>ClientError\<close> at the first or second attempt is followed
  by a sleep of 0.5 * 2 ** attempt seconds and a new attempt; a \<open>ClientError\<close> with any
  other code propagates at once, with no retry and no sleep; any other exception at the
  first or second attempt is followed by a sleep of 0.5 seconds and a new attempt; an
  exception at the third attempt propagates; a returned value ends the loop; the
  operation is invoked at most three times.
\<close>

theorem retry_policy:
  "(a < 2 \<and> func a = Raises (ClientError code) \<and> code \<in> set throttling_codes \<longrightarrow>
      retry_loop 3 (1 / 2) func a =
        (fst (retry_loop 3 (1 / 2) func (Suc a)),
         Call a # Sleep (1 / 2 * 2 ^ a) # snd (retry_loop 3 (1 / 2) func (Suc a)))) \<and>
   (a < 3 \<and> func a = Raises (ClientError code) \<and> code \<notin> set throttling_codes \<longrightarrow>
      retry_loop 3 (1 / 2) func a = (Raised (ClientError code), [Call a])) \<and>
   (a < 2 \<and> func a = Raises e \<and> (\<forall>c. e \<noteq> ClientError c) \<longrightarrow>
      retry_loop 3 (1 / 2) func a =
        (fst (retry_loop 3 (1 / 2) func (Suc a)),
         Call a # Sleep (1 / 2) # snd (retry_loop 3 (1 / 2) func (Suc a)))) \<and>
   (func 2 = Raises e \<longrightarrow> retry_loop 3 (1 / 2) func 2 = (Raised e, [Call 2])) \<and>
   (a < 3 \<and> func a = Returns v \<longrightarrow> retry_loop 3 (1 / 2) func a = (Returned v, [Call a])) \<and>
   store_retry func = retry_loop 3 (1 / 2) func 0 \<and>
   length (filter is_call (snd (store_retry func))) \<le> 3"
proof (intro conjI impI)
  assume "a < 2 \<and> func a = Raises (ClientError code) \<and> code \<in> set throttling_codes"
  then show "retry_loop 3 (1 / 2) func a =
        (fst (retry_loop 3 (1 / 2) func (Suc a)),
         Call a # Sleep (1 / 2 * 2 ^ a) # snd (retry_loop 3 (1 / 2) func (Suc a)))"
    by (simp add: retry_loop.simps [of 3 "1 / 2" func a] split: prod.splits)
next
  assume "a < 3 \<and> func a = Raises (ClientError code) \<and> code \<notin> set throttling_codes"
  then show "retry_loop 3 (1 / 2) func a = (Raised (ClientError code), [Call a])"
    by (simp add: retry_loop.simps [of 3 "1 / 2" func a])
next
  assume "a < 2 \<and> func a = Raises e \<and> (\<forall>c. e \<noteq> ClientError c)"
  then show "retry_loop 3 (1 / 2) func a =
        (fst (retry_loop 3 (1 / 2) func (Suc a)),
         Call a # Sleep (1 / 2) # snd (retry_loop 3 (1 / 2) func (Suc a)))"
    by (cases e) (simp_all add: retry_loop.simps [of 3 "1 / 2" func a] split: prod.splits)
next
  assume "func 2 = Raises e"
  then show "retry_loop 3 (1 / 2) func 2 = (Raised e, [Call 2])"
    by (cases e) (simp_all add: retry_loop.simps [of 3 "1 / 2" func 2])
next
  assume "a < 3 \<and> func a = Returns v"
  then show "retry_loop 3 (1 / 2) func a = (Returned v, [Call a])"
    by (simp add: retry_loop.simps [of 3 "1 / 2" func a])
next
  show "store_retry func = retry_loop 3 (1 / 2) func 0"
    by (simp add: store_retry_def async_retry_def)
next
  from retry_loop_calls [of 3 "1 / 2" func 0]
  show "length (filter is_call (snd (store_retry func))) \<le> 3"
    by (simp add: store_retry_def async_retry_def)
qed

theorem retry_policy_witness:
  "store_retry throttled_twice =
     (Returned (PStr ''item''), [Call 0, Sleep (1 / 2), Call 1, Sleep 1, Call 2]) \<and>
   length (filter is_call (snd (store_retry throttled_twice))) \<le> 3"
proof -
  have f0: "(0::nat) < 2 \<and> throttled_twice 0 = Raises (ClientError ''ThrottlingException'') \<and>
            ''ThrottlingException'' \<in> set throttling_codes"
    and f1: "(1::nat) < 2 \<and> throttled_twice 1 = Raises (ClientError ''ThrottlingException'') \<and>
            ''ThrottlingException'' \<in> set throttling_codes"
    and f2: "(2::nat) < 3 \<and> throttled_twice 2 = Returns (PStr ''item'')"
    by (simp_all add: throttled_twice_def throttling_codes_def)
  from retry_policy [of 2 throttled_twice _ _ "PStr ''item''"] f2
  have s2: "retry_loop 3 (1 / 2) throttled_twice 2 = (Returned (PStr ''item''), [Call 2])"
    by blast
  from retry_policy [of 1 throttled_twice "''ThrottlingException''"] f1
  have "retry_loop 3 (1 / 2) throttled_twice 1 =
        (fst (retry_loop 3 (1 / 2) throttled_twice (Suc 1)),
         Call 1 # Sleep (1 / 2 * 2 ^ 1) # snd (retry_loop 3 (1 / 2) throttled_twice (Suc 1)))"
    by blast
  with s2 have s1: "retry_loop 3 (1 / 2) throttled_twice 1 =
        (Returned (PStr ''item''), [Call 1, Sleep 1, Call 2])"
    by (simp add: numeral_2_eq_2)
  from retry_policy [of 0 throttled_twice "''ThrottlingException''"] f0
  have "retry_loop 3 (1 / 2) throttled_twice 0 =
        (fst (retry_loop 3 (1 / 2) throttled_twice (Suc 0)),
         Call 0 # Sleep (1 / 2 * 2 ^ 0) # snd (retry_loop 3 (1 / 2) throttled_twice (Suc 0)))"
    by blast
  with s1 have s0: "retry_loop 3 (1 / 2) throttled_twice 0 =
        (Returned (PStr ''item''), [Call 0, Sleep (1 / 2), Call 1, Sleep 1, Call 2])"
    by simp
  from retry_policy [of 0 throttled_twice] s0 show ?thesis
    by (simp add: is_call_def)
qed

text \<open>
  C8 as stated fails for an exception that is not a \<open>ClientError\<close>: the operation
  raises it at the first attempt, the wrapper sleeps 0.5 seconds, invokes the operation
  again and returns its value.
\<close>

theorem retry_of_other_exception:
  "flaky_once 0 = Raises OtherException \<and>
   store_retry flaky_once = (Returned (PStr ''item''), [Call 0, Sleep (1 / 2), Call 1])"
  by code_simp

text \<open>
  C9, as the code has it. A table name outside the two names of \<open>valid_tables\<close> gives
  the failure result \<open>Invalid table name\<close> and no call on a table. The index name is
  checked against nothing: a query on a valid table whose key condition is not empty and
  builds, with any non-empty index name, is one call of \<open>table.query\<close> with that name as
  \<open>IndexName\<close>.
\<close>

theorem table_and_index_checks:
  "(table_name d \<notin> set valid_tables \<longrightarrow> run rt st now d = (invalid_table_result, [])) \<and>
   (table_name d \<in> set valid_tables \<and> operation d = ''query'' \<and>
    key_condition d = Some kc \<and> kc \<noteq> [] \<and>
    build_key_expr (dict_items kc) None = Inr key_expr \<and>
    index_name d = Some name \<and> name \<noteq> [] \<longrightarrow>
      snd (run rt st now d) =
        [Query (table_of (table_name d))
           \<lparr>KeyConditionExpression = key_expr,
            IndexName = Some name,
            ProjectionExpression = projection_of (attributes_to_get d),
            Limit = limit_of (limit d),
            FilterExpression = filter_of (filter_expression d)\<rparr>])"
proof (intro conjI impI)
  assume "table_name d \<notin> set valid_tables"
  then show "run rt st now d = (invalid_table_result, [])"
    by (simp add: run_def)
next
  assume a: "table_name d \<in> set valid_tables \<and> operation d = ''query'' \<and>
    key_condition d = Some kc \<and> kc \<noteq> [] \<and>
    build_key_expr (dict_items kc) None = Inr key_expr \<and>
    index_name d = Some name \<and> name \<noteq> []"
  then have "run rt st now d =
      execute_query rt st (table_of (table_name d)) (Some kc) (filter_expression d)
        (Some name) (attributes_to_get d) (limit d)"
    by (simp add: run_def)
  with a show "snd (run rt st now d) =
        [Query (table_of (table_name d))
           \<lparr>KeyConditionExpression = key_expr,
            IndexName = Some name,
            ProjectionExpression = projection_of (attributes_to_get d),
            Limit = limit_of (limit d),
            FilterExpression = filter_of (filter_expression d)\<rparr>]"
    by (simp add: execute_query_def index_name_of_def Let_def split: sum.splits)
qed

theorem table_and_index_checks_witness:
  "run sample_runtime sample_store ''2025-12-15T10:00:00''
     (query_by_transaction ''bogus_table'' ''TransactionIndex'') =
     (invalid_table_result, []) \<and>
   snd (run sample_runtime sample_store ''2025-12-15T10:00:00''
          (query_by_transaction ''ptr_dispute_resol_case_db'' ''TransactionIndex'')) =
     [Query CaseTable
        \<lparr>KeyConditionExpression = Some (KeyEq ''transaction_id'' (PStr ''TXN002'')),
         IndexName = Some ''TransactionIndex'', ProjectionExpression = None,
         Limit = None, FilterExpression = None\<rparr>]"
proof -
  let ?bad = "query_by_transaction ''bogus_table'' ''TransactionIndex''"
  let ?good = "query_by_transaction ''ptr_dispute_resol_case_db'' ''TransactionIndex''"
  have outside: "table_name ?bad \<notin> set valid_tables"
    by (simp add: query_by_transaction_def valid_tables_def)
  have inside: "table_name ?good \<in> set valid_tables \<and> operation ?good = ''query'' \<and>
      key_condition ?good = Some [(''transaction_id'', PStr ''TXN002'')] \<and>
      [(''transaction_id'', PStr ''TXN002'')] \<noteq> [] \<and>
      build_key_expr (dict_items [(''transaction_id'', PStr ''TXN002'')]) None =
        Inr (Some (KeyEq ''transaction_id'' (PStr ''TXN002''))) \<and>
      index_name ?good = Some ''TransactionIndex'' \<and> ''TransactionIndex'' \<noteq> []"
    by (simp add: query_by_transaction_def valid_tables_def dict_items_def)
  from table_and_index_checks
      [where d = "?bad" and rt = sample_runtime and st = sample_store and
         now = "''2025-12-15T10:00:00''"] outside
  have a: "run sample_runtime sample_store ''2025-12-15T10:00:00'' ?bad =
      (invalid_table_result, [])"
    by blast
  from table_and_index_checks
      [where d = "?good" and rt = sample_runtime and st = sample_store and
         now = "''2025-12-15T10:00:00''"] inside
  have "snd (run sample_runtime sample_store ''2025-12-15T10:00:00'' ?good) =
      [Query (table_of (table_name ?good))
         \<lparr>KeyConditionExpression = Some (KeyEq ''transaction_id'' (PStr ''TXN002'')),
          IndexName = Some ''TransactionIndex'',
          ProjectionExpression = projection_of (attributes_to_get ?good),
          Limit = limit_of (limit ?good),
          FilterExpression = filter_of (filter_expression ?good)\<rparr>]"
    by blast
  then have b: "snd (run sample_runtime sample_store ''2025-12-15T10:00:00'' ?good) =
      [Query CaseTable
         \<lparr>KeyConditionExpression = Some (KeyEq ''transaction_id'' (PStr ''TXN002'')),
          IndexName = Some ''TransactionIndex'', ProjectionExpression = None,
          Limit = None, FilterExpression = None\<rparr>]"
    by (simp add: query_by_transaction_def table_of_def projection_of_def limit_of_def
        filter_of_def)
  from a b show ?thesis by simp
qed

text \<open>
  C9 as stated fails for the index name BogusIndex: the query reaches the table with
  \<open>IndexName\<close> BogusIndex, and the failure that comes back is the store's own.
\<close>

theorem unknown_index_reaches_store:
  "index_name (query_by_transaction ''ptr_dispute_resol_case_db'' ''BogusIndex'') =
     Some ''BogusIndex'' \<and>
   run sample_runtime sample_store ''2025-12-15T10:00:00''
     (query_by_transaction ''ptr_dispute_resol_case_db'' ''BogusIndex'') =
     ([(''success'', PBool False), (''error'', PStr ''error'')],
      [Query CaseTable
         \<lparr>KeyConditionExpression = Some (KeyEq ''transaction_id'' (PStr ''TXN002'')),
          IndexName = Some ''BogusIndex'', ProjectionExpression = None,
          Limit = None, FilterExpression = None\<rparr>])"
  by code_simp

text \<open>
  C10, as the code has it. When the read of the case table raises,
  \<open>get_case_by_transaction\<close> and \<open>get_open_case_for_transaction\<close> return \<open>None\<close>, and
  \<open>process_dispute\<close> goes on exactly as if no open case existed: it decides and creates
  a case. With a successful write of a fresh \<open>uuid4\<close> the table gains that case; when
  the decision is FORWARDED\_TO\_ACQUIRER, a transaction that already has an open case
  has one more open case after the call, two at least, with no second caller involved;
  when the decision is another one the new case is closed and the open cases of every
  transaction are what they were. When the write fails too, the failure result is
  returned and the table is unchanged.
\<close>

theorem failed_read_creates_second_case:
  "(rd \<noteq> None \<longrightarrow>
      get_case_by_transaction rd rank tbl tid = None \<and>
      get_open_case_for_transaction rd rank tbl tid = None) \<and>
   (read_error fx \<noteq> None \<longrightarrow>
      process_dispute_try rt fx tbl t = decide_and_create rt fx tbl t) \<and>
   (read_error fx \<noteq> None \<and>
    get_open_case_for_transaction None (index_rank fx) tbl
      (get_default t ''transaction_id'' (PStr ''unknown'')) = None \<longrightarrow>
      process_dispute rt fx tbl t = process_dispute rt (fx\<lparr>read_error := None\<rparr>) tbl t) \<and>
   (read_error fx \<noteq> None \<and> write_error fx = None \<and>
    map_of t ''transaction_id'' = Some (PStr tid') \<and>
    fst (determine_case_status rt t) = ''FORWARDED_TO_ACQUIRER'' \<and>
    open_cases tbl (PStr tid') \<noteq> [] \<and>
    (\<forall>c \<in> set tbl. map_of c ''case_id'' \<noteq> Some (PStr (uuid4 fx))) \<longrightarrow>
      get (fst (process_dispute rt fx tbl t)) ''existing_case'' = PBool False \<and>
      open_cases (snd (process_dispute rt fx tbl t)) (PStr tid') =
        persisted_item rt fx t # open_cases tbl (PStr tid') \<and>
      2 \<le> length (open_cases (snd (process_dispute rt fx tbl t)) (PStr tid'))) \<and>
   (read_error fx \<noteq> None \<and> write_error fx = None \<and>
    fst (determine_case_status rt t) \<noteq> ''FORWARDED_TO_ACQUIRER'' \<and>
    (\<forall>c \<in> set tbl. map_of c ''case_id'' \<noteq> Some (PStr (uuid4 fx))) \<longrightarrow>
      snd (process_dispute rt fx tbl t) = persisted_item rt fx t # tbl \<and>
      open_cases (snd (process_dispute rt fx tbl t)) other_tid = open_cases tbl other_tid) \<and>
   (read_error fx \<noteq> None \<and> write_error fx \<noteq> None \<longrightarrow>
      process_dispute rt fx tbl t = (failure_result, tbl))"
proof (intro conjI impI)
  assume "rd \<noteq> None"
  then show "get_case_by_transaction rd rank tbl tid = None"
    and "get_open_case_for_transaction rd rank tbl tid = None"
    by (rule failed_read_lookup)+
next
  assume "read_error fx \<noteq> None"
  then show "process_dispute_try rt fx tbl t = decide_and_create rt fx tbl t"
    by (rule failed_read_try)
next
  assume a: "read_error fx \<noteq> None \<and>
    get_open_case_for_transaction None (index_rank fx) tbl
      (get_default t ''transaction_id'' (PStr ''unknown'')) = None"
  then have "process_dispute rt fx tbl t =
      (if write_error fx = None
       then (created_result rt fx t, put_item tbl (persisted_item rt fx t))
       else (failure_result, tbl))"
    by (simp add: failed_read_process)
  moreover have "persisted_item rt (fx\<lparr>read_error := None\<rparr>) t = persisted_item rt fx t"
    by (simp add: persisted_item_def stamp_case_def)
  moreover have "created_result rt (fx\<lparr>read_error := None\<rparr>) t = created_result rt fx t"
    by (simp add: created_result_def)
  ultimately show
    "process_dispute rt fx tbl t = process_dispute rt (fx\<lparr>read_error := None\<rparr>) tbl t"
    using a by (simp add: process_dispute_eq)
next
  assume a: "read_error fx \<noteq> None \<and> write_error fx = None \<and>
    map_of t ''transaction_id'' = Some (PStr tid') \<and>
    fst (determine_case_status rt t) = ''FORWARDED_TO_ACQUIRER'' \<and>
    open_cases tbl (PStr tid') \<noteq> [] \<and>
    (\<forall>c \<in> set tbl. map_of c ''case_id'' \<noteq> Some (PStr (uuid4 fx)))"
  let ?p = "persisted_item rt fx t"
  from a have call: "process_dispute rt fx tbl t = (created_result rt fx t, put_item tbl ?p)"
    by (simp add: failed_read_process)
  from a have "put_item tbl ?p = ?p # tbl"
    by (intro put_item_fresh) (simp add: persisted_item_lookup)
  with call have tbl': "snd (process_dispute rt fx tbl t) = ?p # tbl"
    by simp
  from a have "get t ''transaction_id'' = PStr tid'"
    by (simp add: get_def get_default_def)
  then have p_tid: "map_of ?p ''transaction_id'' = Some (PStr tid')"
    by (simp add: persisted_item_lookup)
  from a have p_open: "is_open ?p"
    by (simp add: persisted_item_open)
  from p_tid p_open
  have cases': "open_cases (?p # tbl) (PStr tid') = ?p # open_cases tbl (PStr tid')"
    by (simp add: open_cases_def)
  from a have "1 \<le> length (open_cases tbl (PStr tid'))"
    by (cases "open_cases tbl (PStr tid')") simp_all
  with cases' have two: "2 \<le> length (open_cases (?p # tbl) (PStr tid'))"
    by simp
  show "get (fst (process_dispute rt fx tbl t)) ''existing_case'' = PBool False"
    by (simp add: call created_result_lookup)
  show "open_cases (snd (process_dispute rt fx tbl t)) (PStr tid') =
        ?p # open_cases tbl (PStr tid')"
    by (simp only: tbl' cases')
  show "2 \<le> length (open_cases (snd (process_dispute rt fx tbl t)) (PStr tid'))"
    by (simp only: tbl' two)
next
  assume a: "read_error fx \<noteq> None \<and> write_error fx = None \<and>
    fst (determine_case_status rt t) \<noteq> ''FORWARDED_TO_ACQUIRER'' \<and>
    (\<forall>c \<in> set tbl. map_of c ''case_id'' \<noteq> Some (PStr (uuid4 fx)))"
  let ?p = "persisted_item rt fx t"
  from a have call: "process_dispute rt fx tbl t = (created_result rt fx t, put_item tbl ?p)"
    by (simp add: failed_read_process)
  from a have "put_item tbl ?p = ?p # tbl"
    by (intro put_item_fresh) (simp add: persisted_item_lookup)
  with call show tbl': "snd (process_dispute rt fx tbl t) = ?p # tbl"
    by simp
  from a have "\<not> is_open ?p"
    by (simp add: persisted_item_open)
  then have "open_cases (?p # tbl) other_tid = open_cases tbl other_tid"
    by (simp add: open_cases_def)
  then show "open_cases (snd (process_dispute rt fx tbl t)) other_tid = open_cases tbl other_tid"
    by (simp only: tbl')
next
  assume "read_error fx \<noteq> None \<and> write_error fx \<noteq> None"
  then have rd: "read_error fx \<noteq> None" and wr: "(write_error fx = None) = False"
    by simp_all
  show "process_dispute rt fx tbl t = (failure_result, tbl)"
    by (simp only: failed_read_process [OF rd] wr if_False)
qed

theorem failed_read_creates_second_case_witness:
  "read_error fx_read_fails = Some (ClientError ''ProvisionedThroughputExceededException'') \<and>
   write_error fx_read_fails = None \<and>
   open_cases tbl_after_first (PStr ''TXN002'') =
     [persisted_item sample_runtime fx_first txn_large] \<and>
   get_open_case_for_transaction (read_error fx_read_fails) (index_rank fx_read_fails)
     tbl_after_first (PStr ''TXN002'') = None \<and>
   get (fst (process_dispute sample_runtime fx_read_fails tbl_after_first txn_large))
     ''existing_case'' = PBool False \<and>
   open_cases (snd (process_dispute sample_runtime fx_read_fails tbl_after_first txn_large))
     (PStr ''TXN002'') =
     [persisted_item sample_runtime fx_read_fails txn_large,
      persisted_item sample_runtime fx_first txn_large]"
proof -
  have rd: "read_error fx_read_fails =
      Some (ClientError ''ProvisionedThroughputExceededException'')"
    and wr: "write_error fx_read_fails = None"
    by (simp_all add: fx_read_fails_def)
  have tid: "map_of txn_large ''transaction_id'' = Some (PStr ''TXN002'')"
    by (simp add: txn_large_def)
  have status: "fst (determine_case_status sample_runtime txn_large) = ''FORWARDED_TO_ACQUIRER''"
    by (simp add: sample_decisions)
  have "get txn_large ''transaction_id'' = PStr ''TXN002''"
    by (simp add: get_def get_default_def txn_large_def)
  then have existing: "open_cases tbl_after_first (PStr ''TXN002'') =
      [persisted_item sample_runtime fx_first txn_large]"
    by (simp add: tbl_after_first_eq open_cases_def persisted_item_lookup is_open_def
        get_default_def status)
  have fresh: "\<forall>c \<in> set tbl_after_first. map_of c ''case_id'' \<noteq> Some (PStr (uuid4 fx_read_fails))"
    by (simp add: tbl_after_first_eq persisted_item_lookup fx_first_def fx_read_fails_def)
  from rd have failing: "read_error fx_read_fails \<noteq> None" by simp
  have existing_ne: "open_cases tbl_after_first (PStr ''TXN002'') \<noteq> []"
    by (simp add: existing)
  note inst = failed_read_creates_second_case
    [where rd = "read_error fx_read_fails" and rank = "index_rank fx_read_fails"
       and tbl = tbl_after_first and tid = "PStr ''TXN002''" and fx = fx_read_fails
       and rt = sample_runtime and t = txn_large and tid' = "''TXN002''"]
  from inst failing
  have a: "get_open_case_for_transaction (read_error fx_read_fails) (index_rank fx_read_fails)
             tbl_after_first (PStr ''TXN002'') = None"
    by blast
  from inst failing wr tid status existing_ne fresh
  have b: "get (fst (process_dispute sample_runtime fx_read_fails tbl_after_first txn_large))
             ''existing_case'' = PBool False"
    and c: "open_cases (snd (process_dispute sample_runtime fx_read_fails tbl_after_first
              txn_large)) (PStr ''TXN002'') =
            persisted_item sample_runtime fx_read_fails txn_large #
              open_cases tbl_after_first (PStr ''TXN002'')"
    by blast+
  from rd wr existing a b c show ?thesis
    by simp
qed

text \<open>
  C10 as stated fails for a transaction that is 700 days old: TXN001 has the open case
  \<open>...0006\<close>, the read raises, and the call creates the case \<open>...0003\<close> with status
  REJECTED\_TIME\_BARRED; TXN001 still has one open case.
\<close>

theorem failed_read_second_case_closed:
  "read_error fx_read_fails = Some (ClientError ''ProvisionedThroughputExceededException'') \<and>
   open_cases tbl_old_open (PStr ''TXN001'') =
     [[(''case_id'', PStr ''0b8f6f0e-5d0c-4a52-9f0e-000000000006''),
       (''transaction_id'', PStr ''TXN001''),
       (''dispute_status'', PStr ''FORWARDED_TO_ACQUIRER'')]] \<and>
   map_of txn_old_small ''transaction_id'' = Some (PStr ''TXN001'') \<and>
   get (fst (process_dispute sample_runtime fx_read_fails tbl_old_open txn_old_small))
     ''case_id'' = PStr ''0b8f6f0e-5d0c-4a52-9f0e-000000000003'' \<and>
   get (fst (process_dispute sample_runtime fx_read_fails tbl_old_open txn_old_small))
     ''dispute_status'' = PStr ''REJECTED_TIME_BARRED'' \<and>
   length (snd (process_dispute sample_runtime fx_read_fails tbl_old_open txn_old_small)) = 2 \<and>
   open_cases (snd (process_dispute sample_runtime fx_read_fails tbl_old_open txn_old_small))
     (PStr ''TXN001'') =
     [[(''case_id'', PStr ''0b8f6f0e-5d0c-4a52-9f0e-000000000006''),
       (''transaction_id'', PStr ''TXN001''),
       (''dispute_status'', PStr ''FORWARDED_TO_ACQUIRER'')]]"
  by code_simp

end
